theory Spec2Isabelle
  imports Complex_Main "HOL-Library.Monad_Syntax"
begin

section \<open>JavaScript values\<close>

text \<open>
  A number is an IEEE double. A finite double is written as the real number it denotes,
  so comparing two finite doubles compares these reals; minus zero and the two
  infinities, which \<^verbatim>\<open>JSON.parse\<close> can produce, are values of their own. (No
  \<^verbatim>\<open>NaN\<close> reaches the engine: JSON has none and the engine computes none from
  finite coordinates.)
\<close>

datatype number = Finite real | MinusZero | PlusInfinity | MinusInfinity

text \<open>
  What the host does with numbers, about which nothing is assumed: the rounding of an
  exact result to a double (the sum, difference or quotient of two doubles is the exact
  result rounded), \<^verbatim>\<open>Math.hypot\<close>, the decimal text of a finite double
  (\<^verbatim>\<open>Number.prototype.toString\<close>) and the double that a JSON number literal denotes.
\<close>

record numerics =
  roundDouble :: "real \<Rightarrow> real"
  mathHypot :: "real \<Rightarrow> real \<Rightarrow> real"
  numberToString :: "real \<Rightarrow> string"
  numberOfLiteral :: "string \<Rightarrow> number"

text \<open>
  Configuration reaches the engine as the result of \<^verbatim>\<open>JSON.parse\<close>, so every
  configuration value is a JSON value. Strings are lists of 8-bit characters: the model
  covers documents and configuration written in Latin-1. An object is its list of own
  properties in enumeration order.
\<close>

datatype json =
    JNull
  | JBool bool
  | JNum number
  | JStr string
  | JArr "json list"
  | JObj "(string \<times> json) list"

text \<open>Uncaught JavaScript exceptions that the engine's own code can provoke.\<close>

datatype exn =
  TypeError | SyntaxError | HierarchyRequestError | NotFoundError | InvalidCharacterError

text \<open>\<^verbatim>\<open>!!v\<close>: the falsy JSON values are null, false, the zeros and the empty string.\<close>

fun truthy :: "json \<Rightarrow> bool" where
  "truthy JNull = False"
| "truthy (JBool b) = b"
| "truthy (JNum n) = (n \<noteq> Finite 0 \<and> n \<noteq> MinusZero)"
| "truthy (JStr s) = (s \<noteq> [])"
| "truthy (JArr _) = True"
| "truthy (JObj _) = True"

text \<open>A property read that may yield \<^verbatim>\<open>undefined\<close> (\<open>None\<close>), as a condition.\<close>

definition truthyProp :: "json option \<Rightarrow> bool" where
  "truthyProp p = (case p of None \<Rightarrow> False | Some v \<Rightarrow> truthy v)"

text \<open>
  \<^verbatim>\<open>v.name\<close> for the property names the engine reads (\<^verbatim>\<open>adopted\<close>, \<^verbatim>\<open>access\<close>,
  \<^verbatim>\<open>order\<close>, \<^verbatim>\<open>allow\<close>, \<^verbatim>\<open>deny\<close> and the five option names): none of them is a
  property of a prototype, so only an object has them. JavaScript keeps one value per key.
\<close>

definition jprop :: "json \<Rightarrow> string \<Rightarrow> json option" where
  "jprop v name = (case v of JObj kvs \<Rightarrow> map_of kvs name | _ \<Rightarrow> None)"

fun digitChar :: "nat \<Rightarrow> char" where
  "digitChar n = char_of (48 + n)"

fun showNat :: "nat \<Rightarrow> string" where
  "showNat n = (if n < 10 then [digitChar n] else showNat (n div 10) @ [digitChar (n mod 10)])"

declare showNat.simps [simp del]

definition showInt :: "int \<Rightarrow> string" where
  "showInt i = (if i < 0 then CHR ''-'' # showNat (nat (- i)) else showNat (nat i))"

fun joinWith :: "'a list \<Rightarrow> 'a list list \<Rightarrow> 'a list" where
  "joinWith sep [] = []"
| "joinWith sep [x] = x"
| "joinWith sep (x # y # ys) = x @ sep @ joinWith sep (y # ys)"

text \<open>\<^verbatim>\<open>String(n)\<close> for a number.\<close>

definition showNumber :: "numerics \<Rightarrow> number \<Rightarrow> string" where
  "showNumber N n =
     (case n of
        Finite r \<Rightarrow> numberToString N r
      | MinusZero \<Rightarrow> ''0''
      | PlusInfinity \<Rightarrow> ''Infinity''
      | MinusInfinity \<Rightarrow> ''-Infinity'')"

text \<open>
  \<^verbatim>\<open>String(v)\<close>, the coercion applied by \<^verbatim>\<open>element.matches(v)\<close> and
  \<^verbatim>\<open>setAttribute(name, v)\<close>. An array joins its elements with a comma, a null
  element giving the empty string.
\<close>

fun toStringJS :: "numerics \<Rightarrow> json \<Rightarrow> string" where
  "toStringJS N JNull = ''null''"
| "toStringJS N (JBool b) = (if b then ''true'' else ''false'')"
| "toStringJS N (JNum n) = showNumber N n"
| "toStringJS N (JStr s) = s"
| "toStringJS N (JArr xs) =
     joinWith '','' (map (\<lambda>x. if x = JNull then [] else toStringJS N x) xs)"
| "toStringJS N (JObj _) = ''[object Object]''"

text \<open>\<^verbatim>\<open>s.includes(t)\<close> on strings: \<open>t\<close> occurs as a substring.\<close>

fun isPrefixOf :: "string \<Rightarrow> string \<Rightarrow> bool" where
  "isPrefixOf [] _ = True"
| "isPrefixOf (x # xs) [] = False"
| "isPrefixOf (x # xs) (y # ys) = (x = y \<and> isPrefixOf xs ys)"

fun stringIncludes :: "string \<Rightarrow> string \<Rightarrow> bool" where
  "stringIncludes [] t = (t = [])"
| "stringIncludes (c # cs) t = (isPrefixOf t (c # cs) \<or> stringIncludes cs t)"

section \<open>JSON text\<close>

definition dquote :: char where "dquote = CHR 0x22"
definition squote :: char where "squote = CHR 0x27"
definition backslash :: char where "backslash = CHR 0x5C"

definition hexDigit :: "nat \<Rightarrow> char" where
  "hexDigit n = (if n < 10 then char_of (48 + n) else char_of (87 + n))"

definition escapeChar :: "char \<Rightarrow> string" where
  "escapeChar c =
     (if c = dquote then [backslash, dquote]
      else if c = backslash then [backslash, backslash]
      else if c = CHR 0x08 then [backslash, CHR ''b'']
      else if c = CHR 0x0C then [backslash, CHR ''f'']
      else if c = CHR 0x0A then [backslash, CHR ''n'']
      else if c = CHR 0x0D then [backslash, CHR ''r'']
      else if c = CHR 0x09 then [backslash, CHR ''t'']
      else if (of_char c :: nat) < 32 then
        [backslash, CHR ''u'', CHR ''0'', CHR ''0'',
         hexDigit (of_char c div 16), hexDigit (of_char c mod 16)]
      else [c])"

definition quote :: "string \<Rightarrow> string" where
  "quote s = dquote # concat (map escapeChar s) @ [dquote]"

text \<open>
  \<^verbatim>\<open>JSON.stringify\<close>: a finite number prints as \<^verbatim>\<open>String\<close> prints it, an
  infinity as \<^verbatim>\<open>null\<close>.
\<close>

definition stringifyNumber :: "numerics \<Rightarrow> number \<Rightarrow> string" where
  "stringifyNumber N n =
     (case n of
        Finite r \<Rightarrow> numberToString N r
      | MinusZero \<Rightarrow> ''0''
      | _ \<Rightarrow> ''null'')"

fun stringify :: "numerics \<Rightarrow> json \<Rightarrow> string" where
  "stringify N JNull = ''null''"
| "stringify N (JBool b) = (if b then ''true'' else ''false'')"
| "stringify N (JNum n) = stringifyNumber N n"
| "stringify N (JStr s) = quote s"
| "stringify N (JArr xs) = ''['' @ joinWith '','' (map (stringify N) xs) @ '']''"
| "stringify N (JObj kvs) =
     ''{'' @ joinWith '','' (map (\<lambda>kv. quote (fst kv) @ '':'' @ stringify N (snd kv)) kvs)
       @ ''}''"

datatype token =
    TLBrace | TRBrace | TLBracket | TRBracket | TColon | TComma
  | TString string | TNumber number | TTrue | TFalse | TNull

definition hexVal :: "char \<Rightarrow> nat option" where
  "hexVal c =
     (let n = (of_char c :: nat) in
      if 48 \<le> n \<and> n \<le> 57 then Some (n - 48)
      else if 97 \<le> n \<and> n \<le> 102 then Some (n - 87)
      else if 65 \<le> n \<and> n \<le> 70 then Some (n - 55)
      else None)"

definition hex4 :: "char \<Rightarrow> char \<Rightarrow> char \<Rightarrow> char \<Rightarrow> nat option" where
  "hex4 a b c d =
     (case (hexVal a, hexVal b, hexVal c, hexVal d) of
        (Some w, Some x, Some y, Some z) \<Rightarrow> Some (((w * 16 + x) * 16 + y) * 16 + z)
      | _ \<Rightarrow> None)"

definition unescape :: "char \<Rightarrow> char option" where
  "unescape e =
     (if e = dquote then Some dquote
      else if e = backslash then Some backslash
      else if e = CHR ''/'' then Some (CHR ''/'')
      else if e = CHR ''b'' then Some (CHR 0x08)
      else if e = CHR ''f'' then Some (CHR 0x0C)
      else if e = CHR ''n'' then Some (CHR 0x0A)
      else if e = CHR ''r'' then Some (CHR 0x0D)
      else if e = CHR ''t'' then Some (CHR 0x09)
      else None)"

definition consFst :: "char \<Rightarrow> (string \<times> string) option \<Rightarrow> (string \<times> string) option" where
  "consFst c r = (case r of None \<Rightarrow> None | Some (s, rest) \<Rightarrow> Some (c # s, rest))"

fun lexString :: "string \<Rightarrow> (string \<times> string) option" where
  "lexString [] = None"
| "lexString (c # cs) =
     (if c = dquote then Some ([], cs)
      else if c = backslash then
        (case cs of
           [] \<Rightarrow> None
         | e # r \<Rightarrow>
             if e = CHR ''u'' then
               (case r of
                  h1 # h2 # h3 # h4 # r' \<Rightarrow>
                    (case hex4 h1 h2 h3 h4 of
                       None \<Rightarrow> None
                     | Some n \<Rightarrow> if n < 256 then consFst (char_of n) (lexString r') else None)
                | _ \<Rightarrow> None)
             else
               (case unescape e of
                  None \<Rightarrow> None
                | Some ch \<Rightarrow> consFst ch (lexString r)))
      else if (of_char c :: nat) < 32 then None
      else consFst c (lexString cs))"

definition isDigit :: "char \<Rightarrow> bool" where
  "isDigit c = (48 \<le> (of_char c :: nat) \<and> (of_char c :: nat) \<le> 57)"

definition readNat :: "string \<Rightarrow> nat" where
  "readNat ds = foldl (\<lambda>a c. 10 * a + (of_char c - 48)) 0 ds"

text \<open>
  A JSON number literal: an optional minus sign, an integer part without a leading zero,
  an optional fraction and an optional exponent. A fraction or exponent that lacks its
  digits is not taken, and the character left behind then starts no token.
\<close>

definition scanInt :: "string \<Rightarrow> (string \<times> string) option" where
  "scanInt cs =
     (case cs of
        [] \<Rightarrow> None
      | c # cs' \<Rightarrow>
          if c = CHR ''0'' then Some ([c], cs')
          else if isDigit c then Some (c # takeWhile isDigit cs', dropWhile isDigit cs')
          else None)"

definition scanFrac :: "string \<Rightarrow> string \<times> string" where
  "scanFrac cs =
     (case cs of
        [] \<Rightarrow> ([], cs)
      | c # cs' \<Rightarrow>
          if c = CHR ''.'' \<and> takeWhile isDigit cs' \<noteq> []
          then (c # takeWhile isDigit cs', dropWhile isDigit cs')
          else ([], cs))"

definition scanSign :: "string \<Rightarrow> string \<times> string" where
  "scanSign cs =
     (case cs of
        [] \<Rightarrow> ([], cs)
      | c # cs' \<Rightarrow> if c = CHR ''+'' \<or> c = CHR ''-'' then ([c], cs') else ([], cs))"

definition scanExp :: "string \<Rightarrow> string \<times> string" where
  "scanExp cs =
     (case cs of
        [] \<Rightarrow> ([], cs)
      | c # cs' \<Rightarrow>
          if (c = CHR ''e'' \<or> c = CHR ''E'')
             \<and> takeWhile isDigit (snd (scanSign cs')) \<noteq> []
          then (c # fst (scanSign cs') @ takeWhile isDigit (snd (scanSign cs')),
                dropWhile isDigit (snd (scanSign cs')))
          else ([], cs))"

definition scanUnsigned :: "string \<Rightarrow> (string \<times> string) option" where
  "scanUnsigned cs =
     (case scanInt cs of
        None \<Rightarrow> None
      | Some (i, r1) \<Rightarrow>
          Some (i @ fst (scanFrac r1) @ fst (scanExp (snd (scanFrac r1))),
                snd (scanExp (snd (scanFrac r1)))))"

definition scanNumber :: "string \<Rightarrow> (string \<times> string) option" where
  "scanNumber cs =
     (case cs of
        [] \<Rightarrow> None
      | c # cs' \<Rightarrow>
          if c = CHR ''-'' then
            (case scanUnsigned cs' of None \<Rightarrow> None | Some (t, rest) \<Rightarrow> Some (c # t, rest))
          else scanUnsigned cs)"

definition lexNumber :: "numerics \<Rightarrow> string \<Rightarrow> (number \<times> string) option" where
  "lexNumber N cs =
     (case scanNumber cs of
        None \<Rightarrow> None
      | Some (t, rest) \<Rightarrow> Some (numberOfLiteral N t, rest))"

definition isSpace :: "char \<Rightarrow> bool" where
  "isSpace c = (c = CHR '' '' \<or> c = CHR 0x09 \<or> c = CHR 0x0A \<or> c = CHR 0x0D)"

definition consTok :: "token \<Rightarrow> token list option \<Rightarrow> token list option" where
  "consTok t r = map_option ((#) t) r"

lemma lexString_length: "lexString cs = Some (s, rest) \<Longrightarrow> length rest < length cs"
proof (induction "length cs" arbitrary: cs s rest rule: less_induct)
  case less
  have IH: "\<And>xs a r. lexString xs = Some (a, r) \<Longrightarrow> length xs < length cs \<longrightarrow> length r < length xs"
    using less.hyps by blast
  show ?case
  proof (cases cs)
    case Nil
    with less.prems show ?thesis by simp
  next
    case (Cons c cs')
    show ?thesis
      using less.prems Cons
      by (auto simp: consFst_def split: if_splits list.splits option.splits dest!: IH)
  qed
qed

lemma scanInt_length: "scanInt cs = Some (t, rest) \<Longrightarrow> length rest < length cs"
proof -
  assume a: "scanInt cs = Some (t, rest)"
  have d: "\<And>xs. length (dropWhile isDigit xs) \<le> length xs"
    by (rule length_dropWhile_le)
  from a show ?thesis
    unfolding scanInt_def
    by (cases cs) (auto split: if_splits simp: le_imp_less_Suc d)
qed

lemma scanFrac_length: "length (snd (scanFrac cs)) \<le> length cs"
  unfolding scanFrac_def
  by (cases cs) (auto simp: le_SucI length_dropWhile_le)

lemma scanSign_length: "length (snd (scanSign cs)) \<le> length cs"
  unfolding scanSign_def by (cases cs) auto

lemma scanExp_length: "length (snd (scanExp cs)) \<le> length cs"
proof (cases cs)
  case Nil
  then show ?thesis by (simp add: scanExp_def)
next
  case (Cons c cs')
  have "length (dropWhile isDigit (snd (scanSign cs'))) \<le> length (snd (scanSign cs'))"
    by (rule length_dropWhile_le)
  also have "\<dots> \<le> length cs'" by (rule scanSign_length)
  finally show ?thesis using Cons by (simp add: scanExp_def)
qed

lemma scanUnsigned_length: "scanUnsigned cs = Some (t, rest) \<Longrightarrow> length rest < length cs"
proof -
  assume a: "scanUnsigned cs = Some (t, rest)"
  then obtain i r1 where i: "scanInt cs = Some (i, r1)"
      and r: "rest = snd (scanExp (snd (scanFrac r1)))"
    unfolding scanUnsigned_def by (auto split: option.splits)
  have "length rest \<le> length (snd (scanFrac r1))"
    unfolding r by (rule scanExp_length)
  also have "\<dots> \<le> length r1" by (rule scanFrac_length)
  also have "\<dots> < length cs" using i by (rule scanInt_length)
  finally show ?thesis .
qed

lemma lexNumber_length: "lexNumber N cs = Some (n, rest) \<Longrightarrow> length rest < length cs"
proof -
  assume a: "lexNumber N cs = Some (n, rest)"
  then obtain t where t: "scanNumber cs = Some (t, rest)"
    unfolding lexNumber_def by (auto split: option.splits)
  show ?thesis
  proof (cases cs)
    case Nil
    with t show ?thesis by (simp add: scanNumber_def)
  next
    case (Cons c cs')
    show ?thesis
    proof (cases "c = CHR ''-''")
      case True
      with t Cons obtain u where "scanUnsigned cs' = Some (u, rest)"
        by (auto simp: scanNumber_def split: option.splits)
      then have "length rest < length cs'" by (rule scanUnsigned_length)
      with Cons show ?thesis by simp
    next
      case False
      with t Cons have "scanUnsigned cs = Some (t, rest)"
        by (simp add: scanNumber_def)
      then show ?thesis by (rule scanUnsigned_length)
    qed
  qed
qed

definition nextToken :: "numerics \<Rightarrow> char \<Rightarrow> string \<Rightarrow> (token option \<times> string) option" where
  "nextToken N c cs =
     (if isSpace c then Some (None, cs)
      else if c = CHR ''{'' then Some (Some TLBrace, cs)
      else if c = CHR ''}'' then Some (Some TRBrace, cs)
      else if c = CHR ''['' then Some (Some TLBracket, cs)
      else if c = CHR '']'' then Some (Some TRBracket, cs)
      else if c = CHR '':'' then Some (Some TColon, cs)
      else if c = CHR '','' then Some (Some TComma, cs)
      else if c = dquote then
        (case lexString cs of
           None \<Rightarrow> None
         | Some (s, rest) \<Rightarrow> Some (Some (TString s), rest))
      else if isPrefixOf ''true'' (c # cs) then Some (Some TTrue, drop 3 cs)
      else if isPrefixOf ''false'' (c # cs) then Some (Some TFalse, drop 4 cs)
      else if isPrefixOf ''null'' (c # cs) then Some (Some TNull, drop 3 cs)
      else
        (case lexNumber N (c # cs) of
           None \<Rightarrow> None
         | Some (n, rest) \<Rightarrow> Some (Some (TNumber n), rest)))"

lemma nextToken_length: "nextToken N c cs = Some (t, rest) \<Longrightarrow> length rest < Suc (length cs)"
proof -
  assume a: "nextToken N c cs = Some (t, rest)"
  have s: "\<And>s. lexString cs = Some (s, rest) \<Longrightarrow> ?thesis"
    using lexString_length by fastforce
  have n: "\<And>n. lexNumber N (c # cs) = Some (n, rest) \<Longrightarrow> ?thesis"
    using lexNumber_length by fastforce
  have "rest = cs \<or> rest = drop 3 cs \<or> rest = drop 4 cs
      \<or> (\<exists>s. lexString cs = Some (s, rest)) \<or> (\<exists>n. lexNumber N (c # cs) = Some (n, rest))"
    using a unfolding nextToken_def
    by (simp split: if_splits option.splits prod.splits)
  then show ?thesis
    using s n by auto
qed

function lex :: "numerics \<Rightarrow> string \<Rightarrow> token list option" where
  "lex N [] = Some []"
| "lex N (c # cs) =
     (case nextToken N c cs of
        None \<Rightarrow> None
      | Some (t, rest) \<Rightarrow>
          (case t of None \<Rightarrow> lex N rest | Some tok \<Rightarrow> consTok tok (lex N rest)))"
  by pat_completeness auto
termination
  by (relation "measure (\<lambda>(N, cs). length cs)") (auto dest: nextToken_length)

declare lex.simps(2) [simp del]



section \<open>Parser\<close>

text \<open>
  The own properties of an object are enumerated with the array indices first, in
  ascending order, then the other keys in the order of their creation. An array index
  is the canonical decimal text of an integer below \<open>2\<^sup>3\<^sup>2 - 1\<close>.
\<close>

definition arrayIndex :: "string \<Rightarrow> nat option" where
  "arrayIndex k =
     (if k \<noteq> [] \<and> list_all isDigit k \<and> (length k = 1 \<or> hd k \<noteq> CHR ''0'')
         \<and> readNat k < 4294967295
      then Some (readNat k) else None)"

text \<open>The new key \<open>k\<close> is enumerated before the existing key \<open>k'\<close>.\<close>

definition keyBefore :: "string \<Rightarrow> string \<Rightarrow> bool" where
  "keyBefore k k' =
     (case arrayIndex k of
        None \<Rightarrow> False
      | Some i \<Rightarrow> (case arrayIndex k' of None \<Rightarrow> True | Some j \<Rightarrow> i < j))"

text \<open>Creating a property that the object does not have yet.\<close>

fun addProp :: "string \<Rightarrow> json \<Rightarrow> (string \<times> json) list \<Rightarrow> (string \<times> json) list" where
  "addProp k v [] = [(k, v)]"
| "addProp k v ((k', v') # kvs) =
     (if keyBefore k k' then (k, v) # (k', v') # kvs else (k', v') # addProp k v kvs)"

text \<open>Assigning to a property that the object has keeps its place.\<close>

fun replaceProp :: "string \<Rightarrow> json \<Rightarrow> (string \<times> json) list \<Rightarrow> (string \<times> json) list" where
  "replaceProp k v [] = []"
| "replaceProp k v ((k', v') # kvs) =
     (if k' = k then (k', v) # kvs else (k', v') # replaceProp k v kvs)"

definition setProp :: "string \<Rightarrow> json \<Rightarrow> (string \<times> json) list \<Rightarrow> (string \<times> json) list" where
  "setProp k v kvs = (if k \<in> fst ` set kvs then replaceProp k v kvs else addProp k v kvs)"

datatype frame = ArrF "json list" | ObjF "(string \<times> json) list" string

datatype pstate =
    PValue "frame list"
  | PArrOpen "frame list"
  | PArrNext "json list" "frame list"
  | PObjOpen "frame list"
  | PKey "(string \<times> json) list" "frame list"
  | PColon "(string \<times> json) list" string "frame list"
  | PObjNext "(string \<times> json) list" "frame list"
  | PDone json

fun deliver :: "json \<Rightarrow> frame list \<Rightarrow> pstate" where
  "deliver v [] = PDone v"
| "deliver v (ArrF xs # S) = PArrNext (xs @ [v]) S"
| "deliver v (ObjF kvs k # S) = PObjNext (setProp k v kvs) S"

fun startValue :: "frame list \<Rightarrow> token \<Rightarrow> pstate option" where
  "startValue S (TString s) = Some (deliver (JStr s) S)"
| "startValue S (TNumber n) = Some (deliver (JNum n) S)"
| "startValue S TTrue = Some (deliver (JBool True) S)"
| "startValue S TFalse = Some (deliver (JBool False) S)"
| "startValue S TNull = Some (deliver JNull S)"
| "startValue S TLBracket = Some (PArrOpen S)"
| "startValue S TLBrace = Some (PObjOpen S)"
| "startValue S _ = None"

fun pstep :: "pstate \<Rightarrow> token \<Rightarrow> pstate option" where
  "pstep (PValue S) t = startValue S t"
| "pstep (PArrOpen S) t =
     (if t = TRBracket then Some (deliver (JArr []) S) else startValue (ArrF [] # S) t)"
| "pstep (PArrNext xs S) t =
     (if t = TComma then Some (PValue (ArrF xs # S))
      else if t = TRBracket then Some (deliver (JArr xs) S)
      else None)"
| "pstep (PObjOpen S) t =
     (case t of
        TRBrace \<Rightarrow> Some (deliver (JObj []) S)
      | TString k \<Rightarrow> Some (PColon [] k S)
      | _ \<Rightarrow> None)"
| "pstep (PKey kvs S) t = (case t of TString k \<Rightarrow> Some (PColon kvs k S) | _ \<Rightarrow> None)"
| "pstep (PColon kvs k S) t = (if t = TColon then Some (PValue (ObjF kvs k # S)) else None)"
| "pstep (PObjNext kvs S) t =
     (if t = TComma then Some (PKey kvs S)
      else if t = TRBrace then Some (deliver (JObj kvs) S)
      else None)"
| "pstep (PDone v) t = None"

fun prun :: "pstate \<Rightarrow> token list \<Rightarrow> pstate option" where
  "prun st [] = Some st"
| "prun st (t # ts) = (case pstep st t of None \<Rightarrow> None | Some st' \<Rightarrow> prun st' ts)"

definition JSON_parse :: "numerics \<Rightarrow> string \<Rightarrow> json option" where
  "JSON_parse N text =
     (case lex N text of
        None \<Rightarrow> None
      | Some ts \<Rightarrow> (case prun (PValue []) ts of Some (PDone v) \<Rightarrow> Some v | _ \<Rightarrow> None))"

section \<open>The document\<close>

text \<open>
  Nodes are objects with identity; the document is a store from node identities to the
  properties the engine reads and writes. Only element children are kept (the engine
  never looks at text nodes). The \<^verbatim>\<open>class\<close> attribute of an element is its class
  list and its \<^verbatim>\<open>style\<close> attribute is its inline style; \<open>attributes\<close> holds the
  other content attributes.
\<close>

type_synonym node = nat

datatype nodeKind = DocumentNode | ElementNode | ShadowRootNode | FragmentNode

datatype cssval = Txt string | Px real | Shift real real

record nodeinfo =
  kind :: nodeKind
  parentNode :: "node option"
  host :: "node option"
  children :: "node list"
  attributes :: "string \<rightharpoonup> string"
  classList :: "string list"
  style :: "string \<rightharpoonup> cssval"

record dom =
  nodes :: "node \<Rightarrow> nodeinfo"
  nextNode :: node
  documentNode :: node
  bodyNode :: node

text \<open>
  A \<^verbatim>\<open>DOMRect\<close>: six numbers that the layout engine supplies. The engine reads
  \<^verbatim>\<open>right\<close> and \<^verbatim>\<open>bottom\<close> as they are given and never computes them.
\<close>

record rect =
  left :: real
  top_r :: real
  right :: real
  bottom :: real
  width :: real
  height :: real

text \<open>
  The host environment, about which nothing is assumed: the selector engine (\<open>None\<close>
  is the \<^verbatim>\<open>SyntaxError\<close> of an invalid selector), the layout
  (\<^verbatim>\<open>getBoundingClientRect\<close>) and hit testing (\<^verbatim>\<open>elementFromPoint\<close> of a
  document or shadow root), which depend on the current document; the numbers; the
  name under which \<^verbatim>\<open>setAttribute\<close> stores an attribute (\<open>None\<close> is the
  \<^verbatim>\<open>InvalidCharacterError\<close> of an invalid name; an HTML document stores names in
  lower case); and the declarations that the text of a \<^verbatim>\<open>style\<close> attribute holds.
\<close>

record env =
  selectorEngine :: "dom \<Rightarrow> node \<Rightarrow> string \<Rightarrow> bool option"
  getBoundingClientRect :: "dom \<Rightarrow> node \<Rightarrow> rect"
  elementFromPoint :: "dom \<Rightarrow> node \<Rightarrow> real \<Rightarrow> real \<Rightarrow> node option"
  numerics :: numerics
  attributeName :: "string \<Rightarrow> string option"
  parseStyle :: "string \<Rightarrow> (string \<rightharpoonup> cssval)"

text \<open>\<^verbatim>\<open>a + b\<close>, \<^verbatim>\<open>a - b\<close> and \<^verbatim>\<open>a / b\<close> on doubles.\<close>

definition plusD :: "env \<Rightarrow> real \<Rightarrow> real \<Rightarrow> real" where
  "plusD E a b = roundDouble (numerics E) (a + b)"

definition minusD :: "env \<Rightarrow> real \<Rightarrow> real \<Rightarrow> real" where
  "minusD E a b = roundDouble (numerics E) (a - b)"

definition divideD :: "env \<Rightarrow> real \<Rightarrow> real \<Rightarrow> real" where
  "divideD E a b = roundDouble (numerics E) (a / b)"

definition getAttribute :: "dom \<Rightarrow> node \<Rightarrow> string \<Rightarrow> string option" where
  "getAttribute d n name = attributes (nodes d n) name"

definition hasAttribute :: "dom \<Rightarrow> node \<Rightarrow> string \<Rightarrow> bool" where
  "hasAttribute d n name = (attributes (nodes d n) name \<noteq> None)"

text \<open>
  \<^verbatim>\<open>element.matches(selector)\<close>. The two attribute selectors the engine itself uses
  have their CSS meaning; every other selector is answered by the selector engine.
\<close>

definition elementMatches :: "env \<Rightarrow> dom \<Rightarrow> node \<Rightarrow> string \<Rightarrow> bool option" where
  "elementMatches E d n sel =
     (if sel = ''[data-drag]'' then Some (hasAttribute d n ''data-drag'')
      else if sel = ''[data-drag-parent]'' then Some (hasAttribute d n ''data-drag-parent'')
      else selectorEngine E d n sel)"

section \<open>Access control\<close>

text \<open>
  \<^verbatim>\<open>class Access\<close>. The three fields hold whatever JSON the configuration gave;
  the declared type is a list of strings for each.
\<close>

record access =
  order :: json
  allow :: json
  deny :: json

definition orDefault :: "json option \<Rightarrow> json \<Rightarrow> json" where
  "orDefault p dflt = (case p of None \<Rightarrow> dflt | Some v \<Rightarrow> if truthy v then v else dflt)"

definition newAccess :: "json \<Rightarrow> access" where
  "newAccess config =
     \<lparr> order = orDefault (jprop config ''order'') (JArr [JStr ''allow'', JStr ''deny'']),
       allow = orDefault (jprop config ''allow'') (JArr [JStr ''*'']),
       deny = orDefault (jprop config ''deny'') (JArr []) \<rparr>"

text \<open>
  \<^verbatim>\<open>Access.matches\<close>. On an array, \<^verbatim>\<open>includes('*')\<close> looks for the string
  \<^verbatim>\<open>'*'\<close> itself and \<^verbatim>\<open>some\<close> tests each pattern, an invalid one counting as
  no match. A string has \<^verbatim>\<open>includes\<close> but no \<^verbatim>\<open>some\<close>; any other value has
  neither.
\<close>

definition matchesPattern :: "env \<Rightarrow> dom \<Rightarrow> node \<Rightarrow> json \<Rightarrow> bool" where
  "matchesPattern E d element pattern =
     (case elementMatches E d element (toStringJS (numerics E) pattern) of
        None \<Rightarrow> False
      | Some b \<Rightarrow> b)"

definition matches :: "env \<Rightarrow> dom \<Rightarrow> node \<Rightarrow> json \<Rightarrow> exn + bool" where
  "matches E d element patterns =
     (case patterns of
        JArr ps \<Rightarrow>
          if JStr ''*'' \<in> set ps then Inr True
          else Inr (list_ex (matchesPattern E d element) ps)
      | JStr s \<Rightarrow> if stringIncludes s ''*'' then Inr True else Inl TypeError
      | _ \<Rightarrow> Inl TypeError)"

definition isDenyFirst :: "access \<Rightarrow> bool" where
  "isDenyFirst a =
     (case order a of
        JArr (first # _) \<Rightarrow> first = JStr ''deny''
      | _ \<Rightarrow> False)"

definition canAccept :: "env \<Rightarrow> dom \<Rightarrow> access \<Rightarrow> node \<Rightarrow> node option \<Rightarrow> exn + bool" where
  "canAccept E d a item sourceParent =
     (case sourceParent of
        None \<Rightarrow> Inr True
      | Some src \<Rightarrow>
          (case matches E d src (allow a) of
             Inl e \<Rightarrow> Inl e
           | Inr sourceMatchesAllow \<Rightarrow>
               (case matches E d src (deny a) of
                  Inl e \<Rightarrow> Inl e
                | Inr sourceMatchesDeny \<Rightarrow>
                    if isDenyFirst a then
                      (if sourceMatchesDeny then Inr False
                       else if sourceMatchesAllow then Inr True
                       else Inr False)
                    else Inr (sourceMatchesAllow \<and> \<not> sourceMatchesDeny))))"

text \<open>An access policy as declared: an order and two lists of selector strings.\<close>

definition policy :: "string list \<Rightarrow> string list \<Rightarrow> string list \<Rightarrow> access" where
  "policy ord al dn =
     \<lparr> order = JArr (map JStr ord), allow = JArr (map JStr al), deny = JArr (map JStr dn) \<rparr>"

text \<open>The source container matches a pattern set: a wildcard, or some pattern matches.\<close>

definition matchesSet :: "env \<Rightarrow> dom \<Rightarrow> node \<Rightarrow> string list \<Rightarrow> bool" where
  "matchesSet E d src ps =
     (''*'' \<in> set ps \<or> list_ex (\<lambda>p. elementMatches E d src p = Some True) ps)"

section \<open>Document primitives\<close>

text \<open>
  The mutation primitives of the document model, on the store.
\<close>

definition updNode :: "dom \<Rightarrow> node \<Rightarrow> (nodeinfo \<Rightarrow> nodeinfo) \<Rightarrow> dom" where
  "updNode d n f = d\<lparr>nodes := (nodes d)(n := f (nodes d n))\<rparr>"

text \<open>
  The class list that the text of a \<^verbatim>\<open>class\<close> attribute denotes: its tokens
  between ASCII whitespace, each once, in order of first occurrence.
\<close>

definition isAsciiSpace :: "char \<Rightarrow> bool" where
  "isAsciiSpace c =
     (c = CHR '' '' \<or> c = CHR 0x09 \<or> c = CHR 0x0A \<or> c = CHR 0x0C \<or> c = CHR 0x0D)"

fun wordsFrom :: "string \<Rightarrow> string \<Rightarrow> string list" where
  "wordsFrom cur [] = (if cur = [] then [] else [cur])"
| "wordsFrom cur (c # cs) =
     (if isAsciiSpace c then (if cur = [] then wordsFrom [] cs else cur # wordsFrom [] cs)
      else wordsFrom (cur @ [c]) cs)"

definition classTokens :: "string \<Rightarrow> string list" where
  "classTokens v = rev (remdups (rev (wordsFrom [] v)))"

text \<open>
  \<^verbatim>\<open>element.setAttribute(name, value)\<close>: an invalid name raises; the attribute is
  stored under the name the host gives it.
\<close>

definition setAttribute :: "env \<Rightarrow> dom \<Rightarrow> node \<Rightarrow> string \<Rightarrow> string \<Rightarrow> exn + dom" where
  "setAttribute E d n name v =
     (case attributeName E name of
        None \<Rightarrow> Inl InvalidCharacterError
      | Some stored \<Rightarrow>
          Inr (if stored = ''class'' then updNode d n (\<lambda>i. i\<lparr>classList := classTokens v\<rparr>)
               else if stored = ''style'' then updNode d n (\<lambda>i. i\<lparr>style := parseStyle E v\<rparr>)
               else updNode d n (\<lambda>i. i\<lparr>attributes := (attributes i)(stored \<mapsto> v)\<rparr>)))"

definition classListAdd :: "dom \<Rightarrow> node \<Rightarrow> string \<Rightarrow> dom" where
  "classListAdd d n c =
     updNode d n (\<lambda>i. i\<lparr>classList := (if c \<in> set (classList i) then classList i
                                       else classList i @ [c])\<rparr>)"

definition classListRemove :: "dom \<Rightarrow> node \<Rightarrow> string \<Rightarrow> dom" where
  "classListRemove d n c = updNode d n (\<lambda>i. i\<lparr>classList := removeAll c (classList i)\<rparr>)"

text \<open>Assigning the empty string to an inline style property removes it (\<open>None\<close>).\<close>

definition setStyle :: "dom \<Rightarrow> node \<Rightarrow> string \<Rightarrow> cssval option \<Rightarrow> dom" where
  "setStyle d n prop v = updNode d n (\<lambda>i. i\<lparr>style := (style i)(prop := v)\<rparr>)"

definition setCssText :: "dom \<Rightarrow> node \<Rightarrow> (string \<times> cssval) list \<Rightarrow> dom" where
  "setCssText d n props = updNode d n (\<lambda>i. i\<lparr>style := map_of props\<rparr>)"

definition parentElement :: "dom \<Rightarrow> node \<Rightarrow> node option" where
  "parentElement d n =
     (case parentNode (nodes d n) of
        None \<Rightarrow> None
      | Some p \<Rightarrow> if kind (nodes d p) = ElementNode then Some p else None)"

fun elementAfter :: "node \<Rightarrow> node list \<Rightarrow> node option" where
  "elementAfter n [] = None"
| "elementAfter n (x # xs) =
     (if x = n then (case xs of [] \<Rightarrow> None | y # _ \<Rightarrow> Some y) else elementAfter n xs)"

definition nextElementSibling :: "dom \<Rightarrow> node \<Rightarrow> node option" where
  "nextElementSibling d n =
     (case parentNode (nodes d n) of
        None \<Rightarrow> None
      | Some p \<Rightarrow> elementAfter n (children (nodes d p)))"

text \<open>\<^verbatim>\<open>node.remove()\<close>: detach the node from its parent, if it has one.\<close>

definition removeNode :: "dom \<Rightarrow> node \<Rightarrow> dom" where
  "removeNode d n =
     (case parentNode (nodes d n) of
        None \<Rightarrow> d
      | Some p \<Rightarrow>
          updNode (updNode d p (\<lambda>i. i\<lparr>children := removeAll n (children i)\<rparr>))
            n (\<lambda>i. i\<lparr>parentNode := None\<rparr>))"

fun insertBeforeList :: "node \<Rightarrow> node option \<Rightarrow> node list \<Rightarrow> node list" where
  "insertBeforeList n None xs = xs @ [n]"
| "insertBeforeList n (Some r) [] = [n]"
| "insertBeforeList n (Some r) (x # xs) =
     (if x = r then n # x # xs else x # insertBeforeList n (Some r) xs)"

text \<open>
  The insertion itself: the node leaves its old parent and becomes a child of
  \<open>parent\<close>, before \<open>reference\<close> or last when there is none.
\<close>

definition attach :: "dom \<Rightarrow> node \<Rightarrow> node \<Rightarrow> node option \<Rightarrow> dom" where
  "attach d p n reference =
     (let d1 = removeNode d n in
      updNode (updNode d1 p (\<lambda>i. i\<lparr>children := insertBeforeList n reference (children i)\<rparr>))
        n (\<lambda>i. i\<lparr>parentNode := Some p\<rparr>))"

text \<open>
  The upward step of the document model: the parent, and from a shadow root its host.
  A walk along it from \<open>start\<close> finds whether \<open>n\<close> is \<open>start\<close> or lies above
  it (a host-including inclusive ancestor); it need not end in a store whose links are
  cyclic.
\<close>

definition parentOrHost :: "dom \<Rightarrow> node \<Rightarrow> node option" where
  "parentOrHost d n =
     (case parentNode (nodes d n) of Some p \<Rightarrow> Some p | None \<Rightarrow> host (nodes d n))"

partial_function (option) isAncestor :: "dom \<Rightarrow> node \<Rightarrow> node \<Rightarrow> bool option" where
  "isAncestor d n start =
     (if start = n then Some True
      else (case parentOrHost d start of
              None \<Rightarrow> Some False
            | Some p \<Rightarrow> isAncestor d n p))"

text \<open>
  \<^verbatim>\<open>parent.insertBefore(node, reference)\<close>. A node may not be inserted below
  itself, and the reference must be a child of the parent.
\<close>

definition insertBefore :: "dom \<Rightarrow> node \<Rightarrow> node \<Rightarrow> node option \<Rightarrow> (exn + dom) option" where
  "insertBefore d p n reference =
     (case isAncestor d n p of
        None \<Rightarrow> None
      | Some below \<Rightarrow>
          if below then Some (Inl HierarchyRequestError)
          else if (case reference of
                     None \<Rightarrow> False
                   | Some r \<Rightarrow> parentNode (nodes d r) \<noteq> Some p)
          then Some (Inl NotFoundError)
          else Some (Inr (attach d p n reference)))"

text \<open>
  \<^verbatim>\<open>parent.appendChild(node)\<close> of a node just made by \<^verbatim>\<open>cloneNode\<close>, which is
  above nothing.
\<close>

definition appendChild :: "dom \<Rightarrow> node \<Rightarrow> node \<Rightarrow> dom" where
  "appendChild d p n = attach d p n None"

text \<open>
  \<^verbatim>\<open>node.cloneNode(true)\<close>: a detached deep copy made of fresh nodes. The copy of a
  node is allocated before the copies of its children; a copy is the host of nothing and
  has no host (shadow trees are not cloned). The recursion is bounded by the number of
  allocated nodes, which bounds the depth of any tree in the store.
\<close>

fun cloneTree :: "nat \<Rightarrow> dom \<Rightarrow> node \<Rightarrow> node option \<Rightarrow> dom \<times> node"
  and cloneList :: "nat \<Rightarrow> dom \<Rightarrow> node list \<Rightarrow> node \<Rightarrow> dom \<times> node list" where
  "cloneTree 0 d src par =
     (let c = nextNode d in
      (d\<lparr>nodes := (nodes d)(c := (nodes d src)\<lparr>parentNode := par, host := None, children := []\<rparr>),
         nextNode := Suc c\<rparr>, c))"
| "cloneTree (Suc k) d src par =
     (let c = nextNode d;
          d1 = d\<lparr>nodes := (nodes d)(c := (nodes d src)\<lparr>parentNode := par, host := None, children := []\<rparr>),
                 nextNode := Suc c\<rparr>
      in case cloneList k d1 (children (nodes d src)) c of
           (d2, kids) \<Rightarrow> (updNode d2 c (\<lambda>i. i\<lparr>children := kids\<rparr>), c))"
| "cloneList k d [] par = (d, [])"
| "cloneList k d (x # xs) par =
     (case cloneTree k d x (Some par) of
        (d1, x') \<Rightarrow> (case cloneList k d1 xs par of (d2, xs') \<Rightarrow> (d2, x' # xs')))"

definition cloneNode :: "dom \<Rightarrow> node \<Rightarrow> dom \<times> node" where
  "cloneNode d n = cloneTree (nextNode d) d n None"

section \<open>The engine state\<close>

type_synonym inst = nat
type_synonym sref = nat

text \<open>The drag state object created by \<^verbatim>\<open>handleMouseDown\<close>.\<close>

record session =
  item :: node
  parent :: node
  options :: "(string \<times> json) list"
  offsetX :: real
  offsetY :: real
  startX :: real
  startY :: real
  mirror :: "node option"
  copy :: "node option"
  isDragging :: bool
  sourceInstance :: inst

datatype detail =
    StartDetail node node
  | MoveDetail node "node option" node "node option"
  | ClonedDetail node node
  | AdoptedDetail node node json
  | DropDetail node node node bool
  | CancelDetail node node

record notification =
  target :: node
  eventName :: string
  detail :: detail

record mouseEvent =
  button :: int
  clientX :: real
  clientY :: real
  composedPath :: "node list"

text \<open>
  Everything the engine can reach: the document, the static registry
  \<^verbatim>\<open>DataDrag.instances\<close> (a set in insertion order) and
  \<^verbatim>\<open>DataDrag.globalDragState\<close>, each instance's \<^verbatim>\<open>root\<close> and
  \<^verbatim>\<open>dragState\<close>, the heap of drag state objects, the registered listeners, the
  notifications dispatched so far, the events whose default was prevented and the
  animation frame callbacks still pending.
\<close>

record world =
  doc :: dom
  instances :: "inst list"
  nextInstance :: inst
  rootOf :: "inst \<Rightarrow> node"
  dragState :: "inst \<Rightarrow> sref option"
  globalDragState :: "sref option"
  sessions :: "sref \<Rightarrow> session"
  nextSession :: sref
  mouseDownListeners :: "(node \<times> inst) list"
  mouseMoveListeners :: "inst list"
  mouseUpListeners :: "inst list"
  notifications :: "notification list"
  defaultPrevented :: "mouseEvent list"
  animationFrames :: "(node \<times> json option) list"

datatype 'a result = Returns 'a | Raises exn

text \<open>How a handler ends: it returns, or an exception escapes it, with the state reached.\<close>

datatype outcome = Done world | Threw exn world

fun stateOf :: "outcome \<Rightarrow> world" where
  "stateOf (Done w) = w"
| "stateOf (Threw e w) = w"

definition addListener :: "'a \<Rightarrow> 'a list \<Rightarrow> 'a list" where
  "addListener l ls = (if l \<in> set ls then ls else ls @ [l])"

section \<open>DataDrag: static methods\<close>

definition defaults :: "(string \<times> json) list" where
  "defaults =
     [(''direction'', JStr ''vertical''),
      (''copy'', JBool False),
      (''sort'', JBool True),
      (''handle'', JNull),
      (''animation'', JNum (Finite 150))]"

text \<open>\<^verbatim>\<open>s.replace(/'/g, '"')\<close> and \<^verbatim>\<open>s.replace(/"/g, "'")\<close>.\<close>

definition singleToDouble :: "string \<Rightarrow> string" where
  "singleToDouble s = map (\<lambda>c. if c = squote then dquote else c) s"

definition doubleToSingle :: "string \<Rightarrow> string" where
  "doubleToSingle s = map (\<lambda>c. if c = dquote then squote else c) s"

text \<open>
  The own enumerable properties of a value, as \<^verbatim>\<open>Object.entries\<close> and object
  spread see them: those of an object, the indexed elements of an array, the indexed
  characters of a string, none for the other values.
\<close>

definition ownEntries :: "json \<Rightarrow> (string \<times> json) list" where
  "ownEntries v =
     (case v of
        JObj kvs \<Rightarrow> kvs
      | JArr xs \<Rightarrow> map (\<lambda>(i, x). (showNat i, x)) (enumerate 0 xs)
      | JStr s \<Rightarrow> map (\<lambda>(i, c). (showNat i, JStr [c])) (enumerate 0 s)
      | _ \<Rightarrow> [])"

text \<open>\<^verbatim>\<open>{ ...base, ...v }\<close>\<close>

definition spread :: "(string \<times> json) list \<Rightarrow> json \<Rightarrow> (string \<times> json) list" where
  "spread base v = foldl (\<lambda>acc kv. setProp (fst kv) (snd kv) acc) base (ownEntries v)"

definition parseOptions :: "env \<Rightarrow> dom \<Rightarrow> node \<Rightarrow> (string \<times> json) list" where
  "parseOptions E d element =
     (case getAttribute d element ''data-drag'' of
        None \<Rightarrow> defaults
      | Some attr \<Rightarrow>
          if attr = [] \<or> attr = ''true'' then defaults
          else (case JSON_parse (numerics E) (singleToDouble attr) of
                  None \<Rightarrow> defaults
                | Some parsed \<Rightarrow> spread defaults parsed))"

text \<open>\<open>None\<close> is \<^verbatim>\<open>null\<close>: no attribute, an empty one, or one that does not parse.\<close>

definition parseParentOptions :: "env \<Rightarrow> dom \<Rightarrow> node \<Rightarrow> json option" where
  "parseParentOptions E d element =
     (case getAttribute d element ''data-drag-parent'' of
        None \<Rightarrow> None
      | Some attr \<Rightarrow>
          if attr = [] then None else JSON_parse (numerics E) (singleToDouble attr))"

text \<open>\<^verbatim>\<open>parentConfig?.name\<close>\<close>

definition configProp :: "json option \<Rightarrow> string \<Rightarrow> json option" where
  "configProp cfg name = (case cfg of None \<Rightarrow> None | Some c \<Rightarrow> jprop c name)"

definition dispatchEvent :: "world \<Rightarrow> node option \<Rightarrow> string \<Rightarrow> detail \<Rightarrow> world" where
  "dispatchEvent w tgt name dt =
     (case tgt of
        None \<Rightarrow> w
      | Some t \<Rightarrow>
          w\<lparr>notifications := notifications w
               @ [\<lparr>target = t, eventName = ''datadrag:'' @ name, detail = dt\<rparr>]\<rparr>)"

fun findInPath :: "env \<Rightarrow> dom \<Rightarrow> node list \<Rightarrow> string \<Rightarrow> node option result" where
  "findInPath E d [] selector = Returns None"
| "findInPath E d (element # path) selector =
     (if kind (nodes d element) = ElementNode then
        (case elementMatches E d element selector of
           None \<Rightarrow> Raises SyntaxError
         | Some True \<Rightarrow> Returns (Some element)
         | Some False \<Rightarrow> findInPath E d path selector)
      else findInPath E d path selector)"

text \<open>
  One turn of the loop of \<^verbatim>\<open>findParentInTree\<close>: the parent element, else the host of
  a parent that has one, else a parent node other than the document, else the top.
\<close>

definition upStep :: "dom \<Rightarrow> node \<Rightarrow> node option" where
  "upStep d current =
     (case parentElement d current of
        Some p \<Rightarrow> Some p
      | None \<Rightarrow>
          (case parentNode (nodes d current) of
             None \<Rightarrow> None
           | Some p \<Rightarrow>
               (case host (nodes d p) of
                  Some h \<Rightarrow> Some h
                | None \<Rightarrow> if p \<noteq> documentNode d then Some p else None)))"

text \<open>\<^verbatim>\<open>current.matches?.(selector)\<close>: only an element has \<^verbatim>\<open>matches\<close>.\<close>

definition matchesIfElement :: "env \<Rightarrow> dom \<Rightarrow> node \<Rightarrow> string \<Rightarrow> bool option" where
  "matchesIfElement E d current selector =
     (if kind (nodes d current) = ElementNode then elementMatches E d current selector
      else Some False)"

text \<open>
  The loop of \<^verbatim>\<open>findParentInTree\<close>, over the test \<^verbatim>\<open>current.matches?.(selector)\<close>
  and the step upward. It need not end in a store whose parent links are cyclic.
\<close>

partial_function (option) walkUp ::
  "(node \<Rightarrow> bool option) \<Rightarrow> (node \<Rightarrow> node option) \<Rightarrow> node option
     \<Rightarrow> node option result option" where
  "walkUp matchesSelector up current =
     (case current of
        None \<Rightarrow> Some (Returns None)
      | Some cur \<Rightarrow>
          (case matchesSelector cur of
             None \<Rightarrow> Some (Raises SyntaxError)
           | Some m \<Rightarrow>
               if m then Some (Returns (Some cur))
               else (case up cur of
                       None \<Rightarrow> Some (Returns None)
                     | Some p \<Rightarrow> walkUp matchesSelector up (Some p))))"

definition findParentInTree ::
  "env \<Rightarrow> dom \<Rightarrow> node option \<Rightarrow> string \<Rightarrow> node option result option" where
  "findParentInTree E d element selector =
     walkUp (\<lambda>current. matchesIfElement E d current selector) (upStep d) element"

text \<open>The element a registered root contributes at a point, if any.\<close>

definition hitElement :: "env \<Rightarrow> dom \<Rightarrow> node \<Rightarrow> real \<Rightarrow> real \<Rightarrow> node option" where
  "hitElement E d rootNode x y =
     (if rootNode = documentNode d then elementFromPoint E d rootNode x y
      else (case host (nodes d rootNode) of
              None \<Rightarrow> None
            | Some h \<Rightarrow>
                (let hostRect = getBoundingClientRect E d h;
                     xWithinHost = (x \<ge> left hostRect \<and> x \<le> right hostRect);
                     yWithinHost = (y \<ge> top_r hostRect \<and> y \<le> bottom hostRect)
                 in if xWithinHost \<and> yWithinHost then elementFromPoint E d rootNode x y
                    else None)))"

fun findDropParent ::
  "env \<Rightarrow> dom \<Rightarrow> node list \<Rightarrow> real \<Rightarrow> real \<Rightarrow> node option result option" where
  "findDropParent E d [] x y = Some (Returns None)"
| "findDropParent E d (rootNode # roots) x y =
     (case hitElement E d rootNode x y of
        None \<Rightarrow> findDropParent E d roots x y
      | Some element \<Rightarrow>
          (case findParentInTree E d (Some element) ''[data-drag-parent]'' of
             None \<Rightarrow> None
           | Some (Raises e) \<Rightarrow> Some (Raises e)
           | Some (Returns (Some p)) \<Rightarrow> Some (Returns (Some p))
           | Some (Returns None) \<Rightarrow> findDropParent E d roots x y))"

text \<open>\<^verbatim>\<open>typeof value === 'object'\<close>\<close>

fun typeofObject :: "json \<Rightarrow> bool" where
  "typeofObject JNull = True"
| "typeofObject (JArr _) = True"
| "typeofObject (JObj _) = True"
| "typeofObject _ = False"

definition adoptedValue :: "numerics \<Rightarrow> json \<Rightarrow> string" where
  "adoptedValue N v =
     (if typeofObject v then doubleToSingle (stringify N v) else toStringJS N v)"

text \<open>
  The \<^verbatim>\<open>forEach\<close> over the adopted entries: the attributes are set in turn, and an
  attribute name that the host refuses ends the loop with the attributes set so far.
\<close>

fun adoptEntries :: "env \<Rightarrow> dom \<Rightarrow> node \<Rightarrow> (string \<times> json) list \<Rightarrow> exn \<times> dom + dom" where
  "adoptEntries E d itm [] = Inr d"
| "adoptEntries E d itm (kv # kvs) =
     (case setAttribute E d itm (fst kv) (adoptedValue (numerics E) (snd kv)) of
        Inl e \<Rightarrow> Inl (e, d)
      | Inr d1 \<Rightarrow> adoptEntries E d1 itm kvs)"

definition applyAdoption :: "env \<Rightarrow> world \<Rightarrow> node \<Rightarrow> node \<Rightarrow> outcome" where
  "applyAdoption E w itm par =
     (case configProp (parseParentOptions E (doc w) par) ''adopted'' of
        None \<Rightarrow> Done w
      | Some adopted \<Rightarrow>
          if \<not> truthy adopted then Done w
          else
            (case adoptEntries E (doc w) itm (ownEntries adopted) of
               Inl (e, d1) \<Rightarrow> Threw e (w\<lparr>doc := d1\<rparr>)
             | Inr d1 \<Rightarrow>
                 Done (dispatchEvent (w\<lparr>doc := d1\<rparr>) (Some par) ''adopted''
                         (AdoptedDetail itm par adopted))))"

section \<open>DataDrag: instance methods\<close>

definition newDataDrag :: "world \<Rightarrow> node \<Rightarrow> world \<times> inst" where
  "newDataDrag w rootNode =
     (let i = nextInstance w in
      (w\<lparr>rootOf := (rootOf w)(i := rootNode),
         dragState := (dragState w)(i := None),
         mouseDownListeners := addListener (rootNode, i) (mouseDownListeners w),
         instances := instances w @ [i],
         nextInstance := Suc i\<rparr>, i))"

definition createMirror :: "env \<Rightarrow> dom \<Rightarrow> node \<Rightarrow> dom \<times> node" where
  "createMirror E d element =
     (let r = getBoundingClientRect E d element in
      case cloneNode d element of
        (d1, m) \<Rightarrow>
          (let d2 = classListAdd d1 m ''data-drag-mirror'';
               d3 = setCssText d2 m
                      [(''position'', Txt ''fixed''),
                       (''pointer-events'', Txt ''none''),
                       (''z-index'', Txt ''9999''),
                       (''width'', Px (width r)),
                       (''height'', Px (height r)),
                       (''left'', Px (left r)),
                       (''top'', Px (top_r r)),
                       (''opacity'', Txt ''0.8''),
                       (''margin'', Txt ''0'')]
           in (appendChild d3 (bodyNode d3) m, m)))"

text \<open>\<^verbatim>\<open>DataDrag.globalDragState?.mirror\<close>\<close>

definition globalMirror :: "world \<Rightarrow> node option" where
  "globalMirror w = (case globalDragState w of None \<Rightarrow> None | Some r \<Rightarrow> mirror (sessions w r))"

definition isHorizontal :: "(string \<times> json) list \<Rightarrow> bool" where
  "isHorizontal opts = (map_of opts ''direction'' = Some (JStr ''horizontal''))"

definition midpoint :: "env \<Rightarrow> dom \<Rightarrow> (string \<times> json) list \<Rightarrow> node \<Rightarrow> real" where
  "midpoint E d opts child =
     (let r = getBoundingClientRect E d child in
      if isHorizontal opts then plusD E (left r) (divideD E (width r) 2)
      else plusD E (top_r r) (divideD E (height r) 2))"

definition findInsertPosition ::
  "env \<Rightarrow> world \<Rightarrow> node \<Rightarrow> (string \<times> json) list \<Rightarrow> real \<Rightarrow> real \<Rightarrow> node \<Rightarrow> node option" where
  "findInsertPosition E w container opts x y dragElement =
     (let kids = filter (\<lambda>child. \<not> (child = dragElement) \<and> \<not> (Some child = globalMirror w)
                             \<and> hasAttribute (doc w) child ''data-drag'')
                   (children (nodes (doc w) container));
          coordinate = (if isHorizontal opts then x else y)
      in find (\<lambda>child. coordinate < midpoint E (doc w) opts child) kids)"

definition cleanupElement :: "dom \<Rightarrow> node option \<Rightarrow> dom" where
  "cleanupElement d element =
     (case element of
        None \<Rightarrow> d
      | Some e \<Rightarrow>
          setStyle
            (setStyle
               (setStyle (classListRemove d e ''data-drag-dragging'') e ''opacity'' None)
               e ''transition'' None)
            e ''transform'' None)"

definition animateInsertion ::
  "env \<Rightarrow> world \<Rightarrow> node \<Rightarrow> rect \<Rightarrow> rect \<Rightarrow> json option \<Rightarrow> world" where
  "animateInsertion E w element fromRect toRect duration =
     (let deltaX = minusD E (left fromRect) (left toRect);
          deltaY = minusD E (top_r fromRect) (top_r toRect)
      in if deltaX = 0 \<and> deltaY = 0 then w
         else
           w\<lparr>doc := setStyle (setStyle (doc w) element ''transform'' (Some (Shift deltaX deltaY)))
                      element ''transition'' (Some (Txt ''none'')),
             animationFrames := animationFrames w @ [(element, duration)]\<rparr>)"

text \<open>Running the oldest pending \<^verbatim>\<open>requestAnimationFrame\<close> callback.\<close>

definition durationText :: "numerics \<Rightarrow> json option \<Rightarrow> string" where
  "durationText N duration =
     (case duration of None \<Rightarrow> ''undefined'' | Some v \<Rightarrow> toStringJS N v)"

definition runAnimationFrame :: "env \<Rightarrow> world \<Rightarrow> world" where
  "runAnimationFrame E w =
     (case animationFrames w of
        [] \<Rightarrow> w
      | (element, duration) # rest \<Rightarrow>
          w\<lparr>doc := setStyle
                     (setStyle (doc w) element ''transition''
                        (Some (Txt (''transform '' @ durationText (numerics E) duration @ ''ms ease''))))
                     element ''transform'' (Some (Txt ''translate(0, 0)'')),
            animationFrames := rest\<rparr>)"

text \<open>The distance of the pointer from where it was pressed, as the engine computes it.\<close>

definition distanceMoved :: "env \<Rightarrow> session \<Rightarrow> mouseEvent \<Rightarrow> real" where
  "distanceMoved E st event =
     mathHypot (numerics E)
       (minusD E (clientX event) (startX st)) (minusD E (clientY event) (startY st))"

text \<open>
  \<^verbatim>\<open>options.handle !== null\<close>, and the selector that \<^verbatim>\<open>matches\<close> then receives.
\<close>

definition requiredHandle :: "numerics \<Rightarrow> (string \<times> json) list \<Rightarrow> string option" where
  "requiredHandle N opts =
     (case map_of opts ''handle'' of
        Some JNull \<Rightarrow> None
      | Some v \<Rightarrow> Some (toStringJS N v)
      | None \<Rightarrow> Some ''undefined'')"

definition clickedHandle :: "env \<Rightarrow> dom \<Rightarrow> mouseEvent \<Rightarrow> (string \<times> json) list \<Rightarrow> bool result" where
  "clickedHandle E d event opts =
     (case requiredHandle (numerics E) opts of
        None \<Rightarrow> Returns True
      | Some selector \<Rightarrow>
          (case findInPath E d (composedPath event) selector of
             Raises e \<Rightarrow> Raises e
           | Returns h \<Rightarrow> Returns (h \<noteq> None)))"

definition newSession :: "env \<Rightarrow> world \<Rightarrow> inst \<Rightarrow> mouseEvent \<Rightarrow> node \<Rightarrow> node \<Rightarrow> session" where
  "newSession E w this event itm par =
     (let r = getBoundingClientRect E (doc w) itm in
      \<lparr> item = itm,
        parent = par,
        options = parseOptions E (doc w) itm,
        offsetX = minusD E (clientX event) (left r),
        offsetY = minusD E (clientY event) (top_r r),
        startX = clientX event,
        startY = clientY event,
        mirror = None,
        copy = None,
        isDragging = False,
        sourceInstance = this \<rparr>)"

definition handleMouseDown :: "env \<Rightarrow> world \<Rightarrow> inst \<Rightarrow> mouseEvent \<Rightarrow> outcome" where
  "handleMouseDown E w this event =
     (if button event \<noteq> 0 then Done w
      else if globalDragState w \<noteq> None then Done w
      else
        (case findInPath E (doc w) (composedPath event) ''[data-drag]'' of
           Raises e \<Rightarrow> Threw e w
         | Returns None \<Rightarrow> Done w
         | Returns (Some itm) \<Rightarrow>
             (case clickedHandle E (doc w) event (parseOptions E (doc w) itm) of
                Raises e \<Rightarrow> Threw e w
              | Returns onHandle \<Rightarrow>
                  if \<not> onHandle then Done w
                  else
                    (case findInPath E (doc w) (composedPath event) ''[data-drag-parent]'' of
                       Raises e \<Rightarrow> Threw e w
                     | Returns None \<Rightarrow> Done w
                     | Returns (Some par) \<Rightarrow>
                         (let s = nextSession w in
                          Done (w\<lparr>sessions := (sessions w)(s := newSession E w this event itm par),
                                  nextSession := Suc s,
                                  dragState := (dragState w)(this := Some s),
                                  globalDragState := Some s,
                                  mouseMoveListeners := addListener this (mouseMoveListeners w),
                                  mouseUpListeners := addListener this (mouseUpListeners w),
                                  defaultPrevented := defaultPrevented w @ [event]\<rparr>))))))"

text \<open>The threshold has been met: the drag becomes visible.\<close>

definition startDragging :: "env \<Rightarrow> world \<Rightarrow> sref \<Rightarrow> world" where
  "startDragging E w s =
     (let st = sessions w s in
      case createMirror E (doc w) (item st) of
        (d1, m) \<Rightarrow>
          dispatchEvent
            (w\<lparr>doc := setStyle (classListAdd d1 (item st) ''data-drag-dragging'')
                         (item st) ''opacity'' (Some (Txt ''0.4'')),
               sessions := (sessions w)(s := st\<lparr>isDragging := True, mirror := Some m\<rparr>)\<rparr>)
            (Some (parent st)) ''start'' (StartDetail (item st) (parent st)))"

definition shouldCreateCopy :: "world \<Rightarrow> sref \<Rightarrow> node \<Rightarrow> bool" where
  "shouldCreateCopy w s dropParent =
     (truthyProp (map_of (options (sessions w s)) ''copy'')
      \<and> dropParent \<noteq> parent (sessions w s))"

definition canSortInParent :: "world \<Rightarrow> sref \<Rightarrow> node \<Rightarrow> bool" where
  "canSortInParent w s dropParent =
     (truthyProp (map_of (options (sessions w s)) ''sort'')
      \<or> dropParent \<noteq> parent (sessions w s))"

text \<open>Copy creation and removal for the container under the pointer.\<close>

definition reconcileCopy :: "world \<Rightarrow> sref \<Rightarrow> node \<Rightarrow> world" where
  "reconcileCopy w s dropParent =
     (let st = sessions w s in
      case copy st of
        None \<Rightarrow>
          if shouldCreateCopy w s dropParent then
            (case cloneNode (doc w) (item st) of
               (d1, c) \<Rightarrow>
                 dispatchEvent
                   (w\<lparr>doc := d1, sessions := (sessions w)(s := st\<lparr>copy := Some c\<rparr>)\<rparr>)
                   (Some (parent st)) ''cloned'' (ClonedDetail (item st) c))
          else w
      | Some c \<Rightarrow>
          if \<not> shouldCreateCopy w s dropParent then
            w\<lparr>doc := removeNode (doc w) c, sessions := (sessions w)(s := st\<lparr>copy := None\<rparr>)\<rparr>
          else w)"

definition activeElementOf :: "session \<Rightarrow> node" where
  "activeElementOf st = (case copy st of Some c \<Rightarrow> c | None \<Rightarrow> item st)"

text \<open>Moving the active element to its place in the container under the pointer.\<close>

text \<open>The active element has been inserted: animation and notification.\<close>

definition afterInsertion ::
  "env \<Rightarrow> world \<Rightarrow> sref \<Rightarrow> node \<Rightarrow> node option \<Rightarrow> dom \<Rightarrow> world" where
  "afterInsertion E w s dropParent reference d1 =
     (let st = sessions w s;
          activeElement = activeElementOf st;
          oldParent = parentElement (doc w) activeElement;
          oldRect = getBoundingClientRect E (doc w) activeElement;
          w1 = w\<lparr>doc := d1\<rparr>;
          duration = map_of (options st) ''animation'';
          w2 = (if truthyProp duration then
                  animateInsertion E w1 activeElement oldRect
                    (getBoundingClientRect E (doc w1) activeElement) duration
                else w1)
      in dispatchEvent w2 (Some dropParent) ''move''
           (MoveDetail activeElement oldParent dropParent reference))"

definition needsInsertion :: "world \<Rightarrow> node \<Rightarrow> node \<Rightarrow> node option \<Rightarrow> bool" where
  "needsInsertion w activeElement dropParent reference =
     (parentElement (doc w) activeElement \<noteq> Some dropParent
      \<or> nextElementSibling (doc w) activeElement \<noteq> reference)"

definition placeActive :: "env \<Rightarrow> world \<Rightarrow> sref \<Rightarrow> mouseEvent \<Rightarrow> node \<Rightarrow> outcome option" where
  "placeActive E w s event dropParent =
     (let st = sessions w s;
          activeElement = activeElementOf st;
          reference = findInsertPosition E w dropParent (options st)
                        (clientX event) (clientY event) activeElement
      in if \<not> canSortInParent w s dropParent then Some (Done w)
         else if \<not> needsInsertion w activeElement dropParent reference then Some (Done w)
         else (case insertBefore (doc w) dropParent activeElement reference of
                 None \<Rightarrow> None
               | Some (Inl e) \<Rightarrow> Some (Threw e w)
               | Some (Inr d1) \<Rightarrow> Some (Done (afterInsertion E w s dropParent reference d1))))"

text \<open>The access rules of the container under the pointer, then copy and placement.\<close>

definition overTarget :: "env \<Rightarrow> world \<Rightarrow> sref \<Rightarrow> mouseEvent \<Rightarrow> node \<Rightarrow> outcome option" where
  "overTarget E w s event dropParent =
     (let st = sessions w s;
          proceed = placeActive E (reconcileCopy w s dropParent) s event dropParent
      in case configProp (parseParentOptions E (doc w) dropParent) ''access'' of
           None \<Rightarrow> proceed
         | Some accessRules \<Rightarrow>
             if \<not> truthy accessRules then proceed
             else
               (case canAccept E (doc w) (newAccess accessRules) (item st) (Some (parent st)) of
                  Inl e \<Rightarrow> Some (Threw e w)
                | Inr accepted \<Rightarrow> if \<not> accepted then Some (Done w) else proceed))"

text \<open>
  The mirror follows the pointer and is hidden while the container under the pointer
  is looked up.
\<close>

definition mirrorHiddenAt :: "env \<Rightarrow> dom \<Rightarrow> node \<Rightarrow> session \<Rightarrow> mouseEvent \<Rightarrow> dom" where
  "mirrorHiddenAt E d m st event =
     setStyle
       (setStyle
          (setStyle d m ''left'' (Some (Px (minusD E (clientX event) (offsetX st)))))
          m ''top'' (Some (Px (minusD E (clientY event) (offsetY st)))))
       m ''display'' (Some (Txt ''none''))"

definition mirrorShown :: "dom \<Rightarrow> node \<Rightarrow> dom" where
  "mirrorShown d m = setStyle d m ''display'' None"

definition underPointer ::
  "env \<Rightarrow> world \<Rightarrow> sref \<Rightarrow> mouseEvent \<Rightarrow> node option \<Rightarrow> outcome option" where
  "underPointer E w s event dropParent =
     (case dropParent of
        None \<Rightarrow> Some (Done w)
      | Some dp \<Rightarrow> overTarget E w s event dp)"

definition followPointer :: "env \<Rightarrow> world \<Rightarrow> sref \<Rightarrow> mouseEvent \<Rightarrow> outcome option" where
  "followPointer E w s event =
     (case mirror (sessions w s) of
        None \<Rightarrow> Some (Threw TypeError w)
      | Some m \<Rightarrow>
          (case findDropParent E (mirrorHiddenAt E (doc w) m (sessions w s) event)
                  (map (rootOf w) (instances w)) (clientX event) (clientY event) of
             None \<Rightarrow> None
           | Some (Raises e) \<Rightarrow>
               Some (Threw e (w\<lparr>doc := mirrorHiddenAt E (doc w) m (sessions w s) event\<rparr>))
           | Some (Returns dropParent) \<Rightarrow>
               underPointer E
                 (w\<lparr>doc := mirrorShown (mirrorHiddenAt E (doc w) m (sessions w s) event) m\<rparr>)
                 s event dropParent))"

definition handleMouseMove :: "env \<Rightarrow> world \<Rightarrow> inst \<Rightarrow> mouseEvent \<Rightarrow> outcome option" where
  "handleMouseMove E w this event =
     (case globalDragState w of
        None \<Rightarrow> Some (Done w)
      | Some s \<Rightarrow>
          (let st = sessions w s in
              if \<not> isDragging st then
                (if \<not> (distanceMoved E st event \<ge> 5) then Some (Done w)
                 else followPointer E (startDragging E w s) s event)
              else followPointer E w s event))"

definition clearDragState :: "world \<Rightarrow> inst \<Rightarrow> world" where
  "clearDragState w this = w\<lparr>globalDragState := None, dragState := (dragState w)(this := None)\<rparr>"

definition removeDocumentListeners :: "world \<Rightarrow> inst \<Rightarrow> world" where
  "removeDocumentListeners w this =
     w\<lparr>mouseMoveListeners := removeAll this (mouseMoveListeners w),
       mouseUpListeners := removeAll this (mouseUpListeners w)\<rparr>"

text \<open>The end of a drag that became visible, once the final parent has been validated.\<close>

definition finishDrag ::
  "env \<Rightarrow> world \<Rightarrow> session \<Rightarrow> node option \<Rightarrow> node option \<Rightarrow> outcome" where
  "finishDrag E w st finalParent isValidDrop =
     (let activeElement = activeElementOf st;
          d1 = (case mirror st of Some m \<Rightarrow> removeNode (doc w) m | None \<Rightarrow> doc w);
          d2 = cleanupElement (cleanupElement d1 (Some (item st))) (copy st);
          w2 = w\<lparr>doc := d2\<rparr>
      in case isValidDrop of
           Some container \<Rightarrow>
             (case finalParent of
                None \<Rightarrow> Threw TypeError w2
              | Some fp \<Rightarrow>
                  (case applyAdoption E w2 activeElement fp of
                     Threw e w3 \<Rightarrow> Threw e w3
                   | Done w3 \<Rightarrow>
                       Done (dispatchEvent w3 (Some fp) ''drop''
                               (DropDetail activeElement (parent st) fp (copy st \<noteq> None)))))
         | None \<Rightarrow>
             Done (dispatchEvent
                     (w2\<lparr>doc := (case copy st of Some c \<Rightarrow> removeNode d2 c | None \<Rightarrow> d2)\<rparr>)
                     (Some (parent st)) ''cancel'' (CancelDetail (item st) (parent st))))"

definition finished :: "outcome \<Rightarrow> inst \<Rightarrow> outcome" where
  "finished out this =
     (case out of Done w \<Rightarrow> Done (clearDragState w this) | Threw e w \<Rightarrow> Threw e w)"

definition handleMouseUp :: "env \<Rightarrow> world \<Rightarrow> inst \<Rightarrow> outcome option" where
  "handleMouseUp E w this =
     (case globalDragState w of
        None \<Rightarrow> Some (Done w)
      | Some s \<Rightarrow>
          (let st = sessions w s;
               w1 = removeDocumentListeners w this
           in if \<not> isDragging st then Some (Done (clearDragState w1 this))
              else
                (let finalParent = parentElement (doc w1) (activeElementOf st) in
                 case findParentInTree E (doc w1) finalParent ''[data-drag-parent]'' of
                   None \<Rightarrow> None
                 | Some (Raises e) \<Rightarrow> Some (Threw e w1)
                 | Some (Returns isValidDrop) \<Rightarrow>
                     Some (finished (finishDrag E w1 st finalParent isValidDrop) this))))"

definition destroy :: "world \<Rightarrow> inst \<Rightarrow> world" where
  "destroy w this =
     (let w1 = w\<lparr>mouseDownListeners := removeAll (rootOf w this, this) (mouseDownListeners w),
                 instances := removeAll this (instances w)\<rparr>;
          w2 = (if dragState w1 this = globalDragState w1
                then (removeDocumentListeners w1 this)\<lparr>globalDragState := None\<rparr>
                else w1)
      in w2\<lparr>dragState := (dragState w2)(this := None)\<rparr>)"

section \<open>Runs of the engine\<close>

text \<open>
  The module is loaded into a document with no instance, no drag state and no listener.
  From there the host constructs and destroys instances and delivers each event to a
  listener that is registered for it. A handler that does not return leaves no state
  behind.
\<close>

definition initialWorld :: "dom \<Rightarrow> world" where
  "initialWorld d =
     \<lparr> doc = d, instances = [], nextInstance = 0, rootOf = (\<lambda>_. documentNode d),
       dragState = (\<lambda>_. None), globalDragState = None,
       sessions = (\<lambda>_. \<lparr> item = 0, parent = 0, options = [], offsetX = 0, offsetY = 0,
                          startX = 0, startY = 0, mirror = None, copy = None,
                          isDragging = False, sourceInstance = 0 \<rparr>),
       nextSession = 0, mouseDownListeners = [], mouseMoveListeners = [],
       mouseUpListeners = [], notifications = [], defaultPrevented = [],
       animationFrames = [] \<rparr>"

inductive step :: "env \<Rightarrow> world \<Rightarrow> world \<Rightarrow> bool" for E where
  construct: "step E w (fst (newDataDrag w rootNode))"
| mouseDown: "(rootNode, i) \<in> set (mouseDownListeners w) \<Longrightarrow> step E w (stateOf (handleMouseDown E w i event))"
| mouseMove: "i \<in> set (mouseMoveListeners w) \<Longrightarrow> handleMouseMove E w i event = Some out
              \<Longrightarrow> step E w (stateOf out)"
| mouseUp: "i \<in> set (mouseUpListeners w) \<Longrightarrow> handleMouseUp E w i = Some out
              \<Longrightarrow> step E w (stateOf out)"
| destroyed: "step E w (destroy w i)"
| animationFrame: "step E w (runAnimationFrame E w)"

inductive reachable :: "env \<Rightarrow> world \<Rightarrow> bool" for E where
  loaded: "reachable E (initialWorld d)"
| after: "reachable E w \<Longrightarrow> step E w w' \<Longrightarrow> reachable E w'"

section \<open>Vocabulary of the properties\<close>

text \<open>The node is the mirror of the drag in progress.\<close>

definition isTheMirror :: "world \<Rightarrow> node \<Rightarrow> bool" where
  "isTheMirror w n =
     (case globalDragState w of
        None \<Rightarrow> False
      | Some s \<Rightarrow> (case mirror (sessions w s) of None \<Rightarrow> False | Some m \<Rightarrow> n = m))"

text \<open>
  The midpoint of a rectangle along an axis, in the arithmetic of doubles: half the
  extent, rounded, added to the near edge, rounded.
\<close>

definition midpointAlong :: "env \<Rightarrow> bool \<Rightarrow> rect \<Rightarrow> real" where
  "midpointAlong E horizontal r =
     (let rounded = roundDouble (numerics E) in
      if horizontal then rounded (left r + rounded (width r / 2))
      else rounded (top_r r + rounded (height r / 2)))"

text \<open>
  A child that may serve as insertion reference when the layout is horizontal or not:
  it carries the marker, is neither the active element nor the mirror, and its midpoint
  along the axis lies after the pointer.
\<close>

definition candidateAlong ::
  "env \<Rightarrow> world \<Rightarrow> bool \<Rightarrow> real \<Rightarrow> real \<Rightarrow> node \<Rightarrow> node \<Rightarrow> bool" where
  "candidateAlong E w horizontal x y active child =
     (hasAttribute (doc w) child ''data-drag''
      \<and> child \<noteq> active
      \<and> \<not> isTheMirror w child
      \<and> (if horizontal then x else y)
          < midpointAlong E horizontal (getBoundingClientRect E (doc w) child))"

text \<open>The axis that a set of item options configures, and the candidates along it.\<close>

definition insertCandidate ::
  "env \<Rightarrow> world \<Rightarrow> (string \<times> json) list \<Rightarrow> real \<Rightarrow> real \<Rightarrow> node \<Rightarrow> node \<Rightarrow> bool" where
  "insertCandidate E w opts x y active child =
     candidateAlong E w (map_of opts ''direction'' = Some (JStr ''horizontal'')) x y active child"

text \<open>
  The axis that the configuration of a container names (its \<^verbatim>\<open>data-drag-parent\<close>
  attribute), and the candidates along it.
\<close>

definition containerCandidate ::
  "env \<Rightarrow> world \<Rightarrow> node \<Rightarrow> real \<Rightarrow> real \<Rightarrow> node \<Rightarrow> node \<Rightarrow> bool" where
  "containerCandidate E w container x y active child =
     candidateAlong E w
       (configProp (parseParentOptions E (doc w) container) ''direction''
          = Some (JStr ''horizontal''))
       x y active child"


definition isContainer :: "dom \<Rightarrow> node \<Rightarrow> bool" where
  "isContainer d n = (kind (nodes d n) = ElementNode \<and> hasAttribute d n ''data-drag-parent'')"








text \<open>An instance owns the active session: there is one, and it is the instance's own.\<close>

definition ownsActiveSession :: "world \<Rightarrow> inst \<Rightarrow> bool" where
  "ownsActiveSession w i = (globalDragState w \<noteq> None \<and> dragState w i = globalDragState w)"

text \<open>What a pointer-move never touches.\<close>

definition control ::
  "world \<Rightarrow> sref option \<times> (inst \<Rightarrow> sref option) \<times> inst list \<times> inst list
     \<times> (node \<times> inst) list \<times> inst list \<times> inst \<times> (inst \<Rightarrow> node) \<times> sref
     \<times> mouseEvent list" where
  "control w =
     (globalDragState w, dragState w, mouseMoveListeners w, mouseUpListeners w,
      mouseDownListeners w, instances w, nextInstance w, rootOf w, nextSession w,
      defaultPrevented w)"

definition fixedPart ::
  "session \<Rightarrow> node \<times> node \<times> (string \<times> json) list \<times> real \<times> real \<times> real \<times> real \<times> inst" where
  "fixedPart st =
     (item st, parent st, options st, offsetX st, offsetY st, startX st, startY st,
      sourceInstance st)"

definition sameControl :: "world \<Rightarrow> world \<Rightarrow> bool" where
  "sameControl w w' =
     (control w' = control w \<and> (\<forall>s. fixedPart (sessions w' s) = fixedPart (sessions w s)))"

definition liveSessions :: "world \<Rightarrow> sref set" where
  "liveSessions w = {s. globalDragState w = Some s} \<union> {s. \<exists>i. dragState w i = Some s}"

definition sessionInvariant :: "world \<Rightarrow> bool" where
  "sessionInvariant w =
     ((\<forall>i s. dragState w i = Some s \<longrightarrow>
          globalDragState w = Some s \<and> sourceInstance (sessions w s) = i)
      \<and> (\<forall>s. globalDragState w = Some s \<longrightarrow>
            dragState w (sourceInstance (sessions w s)) = Some s
            \<and> sourceInstance (sessions w s) < nextInstance w)
      \<and> (\<forall>i. i \<in> set (mouseMoveListeners w) \<or> i \<in> set (mouseUpListeners w) \<longrightarrow>
            (\<exists>s. globalDragState w = Some s \<and> sourceInstance (sessions w s) = i))
      \<and> (\<forall>r i. (r, i) \<in> set (mouseDownListeners w) \<longrightarrow> i < nextInstance w))"

definition sessionStarted :: "env \<Rightarrow> world \<Rightarrow> inst \<Rightarrow> mouseEvent \<Rightarrow> node \<Rightarrow> node \<Rightarrow> world" where
  "sessionStarted E w i ev itm par =
     w\<lparr>sessions := (sessions w)(nextSession w := newSession E w i ev itm par),
       nextSession := Suc (nextSession w),
       dragState := (dragState w)(i := Some (nextSession w)),
       globalDragState := Some (nextSession w),
       mouseMoveListeners := addListener i (mouseMoveListeners w),
       mouseUpListeners := addListener i (mouseUpListeners w),
       defaultPrevented := defaultPrevented w @ [ev]\<rparr>"

section \<open>Example documents\<close>

text \<open>
  A page with two containers, 20 and 30, under the body 10: 20 holds the items 21, 22
  and 23, 30 holds the item 31. Node \<open>n\<close> is laid out as a row ten pixels high
  starting at \<open>10 * n\<close>; a point hits the row it falls into. The selector
  \<^verbatim>\<open>.picked\<close> matches container 30 only.
\<close>

definition blankNode :: nodeinfo where
  "blankNode = \<lparr> kind = ElementNode, parentNode = None, host = None, children = [],
                   attributes = Map.empty, classList = [], style = Map.empty \<rparr>"

definition elementNode :: "node \<Rightarrow> node list \<Rightarrow> (string \<times> string) list \<Rightarrow> nodeinfo" where
  "elementNode p kids attrs =
     blankNode\<lparr>parentNode := Some p, children := kids, attributes := map_of attrs\<rparr>"

definition pageNodes :: "node \<Rightarrow> nodeinfo" where
  "pageNodes =
     (\<lambda>_. blankNode)
     (0 := blankNode\<lparr>kind := DocumentNode, children := [10]\<rparr>,
      10 := elementNode 0 [20, 30] [],
      20 := elementNode 10 [21, 22, 23] [(''data-drag-parent'', ''{}'')],
      30 := elementNode 10 [31] [(''data-drag-parent'', ''{}'')],
      21 := elementNode 20 [] [(''data-drag'', ''true'')],
      22 := elementNode 20 [] [(''data-drag'', ''true'')],
      23 := elementNode 20 [] [(''data-drag'', ''true'')],
      31 := elementNode 30 [] [(''data-drag'', ''true'')])"

definition page :: dom where
  "page = \<lparr> nodes = pageNodes, nextNode = 40, documentNode = 0, bodyNode = 10 \<rparr>"

text \<open>
  A host whose numbers are exact: nothing is rounded, the norm is the Euclidean one, a
  whole number prints in decimal and a literal of digits denotes its value. Its
  attribute names are stored as given, the empty name and names with a space being
  invalid.
\<close>

definition euclid :: "real \<Rightarrow> real \<Rightarrow> real" where
  "euclid a b = sqrt (a * a + b * b)"

definition readInt :: "string \<Rightarrow> int" where
  "readInt t =
     (case t of
        [] \<Rightarrow> 0
      | c # cs \<Rightarrow> if c = CHR ''-'' then - int (readNat cs) else int (readNat t))"

definition exact :: numerics where
  "exact =
     \<lparr> roundDouble = (\<lambda>r. r),
       mathHypot = euclid,
       numberToString = (\<lambda>r. showInt \<lfloor>r\<rfloor>),
       numberOfLiteral = (\<lambda>t. Finite (of_int (readInt t))) \<rparr>"

definition plainName :: "string \<Rightarrow> string option" where
  "plainName name = (if name = [] \<or> CHR '' '' \<in> set name then None else Some name)"

definition rowAt :: "real \<Rightarrow> node option" where
  "rowAt y =
     (if 200 \<le> y \<and> y < 210 then Some 20
      else if 210 \<le> y \<and> y < 220 then Some 21
      else if 220 \<le> y \<and> y < 230 then Some 22
      else if 230 \<le> y \<and> y < 240 then Some 23
      else if 300 \<le> y \<and> y < 310 then Some 30
      else if 310 \<le> y \<and> y < 320 then Some 31
      else None)"

definition rows :: env where
  "rows =
     \<lparr> selectorEngine = (\<lambda>d n sel. Some (sel = ''.picked'' \<and> n = 30)),
       getBoundingClientRect =
         (\<lambda>d n. \<lparr> left = 0, top_r = 10 * real n, right = 100, bottom = 10 * real n + 10,
                   width = 100, height = 10 \<rparr>),
       elementFromPoint = (\<lambda>d r x y. rowAt y),
       numerics = exact,
       attributeName = plainName,
       parseStyle = (\<lambda>text. Map.empty) \<rparr>"

definition press :: mouseEvent where
  "press = \<lparr> button = 0, clientX = 5, clientY = 215, composedPath = [21, 20, 10, 0] \<rparr>"

definition moveTo :: "real \<Rightarrow> real \<Rightarrow> mouseEvent" where
  "moveTo x y = \<lparr> button = 0, clientX = x, clientY = y, composedPath = [] \<rparr>"

text \<open>
  The same page with container 20 configured for a horizontal layout, before any
  instance is constructed.
\<close>

definition gallery :: world where
  \<open>gallery =
     initialWorld
       (page\<lparr>nodes := pageNodes
          (20 := elementNode 10 [21, 22, 23]
                   [(''data-drag-parent'', ''{"direction":"horizontal"}'')])\<rparr>)\<close>

text \<open>The module loaded into the page, and a press on item 21.\<close>

definition loaded :: world where
  "loaded = fst (newDataDrag (initialWorld page) 0)"

definition pressed :: world where
  "pressed = stateOf (handleMouseDown rows loaded 0 press)"

text \<open>
  The press once the drag has become visible, in a document where the mirror stands
  among the children of container 20, as its child 22.
\<close>

definition mirrored :: world where
  "mirrored =
     pressed\<lparr>sessions := (sessions pressed)
               (0 := (sessions pressed 0)\<lparr>isDragging := True, mirror := Some 22\<rparr>)\<rparr>"




text \<open>
  A shop: container 20 holds item 21, which is configured to be copied, and container 30
  holds item 31. The rows are laid out as in the page.
\<close>

definition shopNodes :: "node \<Rightarrow> nodeinfo" where
  \<open>shopNodes =
     (\<lambda>_. blankNode)
     (0 := blankNode\<lparr>kind := DocumentNode, children := [10]\<rparr>,
      10 := elementNode 0 [20, 30] [],
      20 := elementNode 10 [21] [(''data-drag-parent'', ''{}'')],
      30 := elementNode 10 [31] [(''data-drag-parent'', ''{}'')],
      21 := elementNode 20 [] [(''data-drag'', ''{"copy":true}'')],
      31 := elementNode 30 [] [(''data-drag'', ''true'')])\<close>

definition shop :: dom where
  "shop = \<lparr> nodes = shopNodes, nextNode = 40, documentNode = 0, bodyNode = 10 \<rparr>"

text \<open>The options of item 21: the defaults with copying enabled.\<close>

definition copying :: "(string \<times> json) list" where
  "copying =
     [(''direction'', JStr ''vertical''),
      (''copy'', JBool True),
      (''sort'', JBool True),
      (''handle'', JNull),
      (''animation'', JNum (Finite 150))]"

text \<open>
  A drag in the shop. The module is loaded and item 21 is pressed at (5, 215); the pointer
  then moves to (5, 305), over container 30. That one move starts the drag (the mirror
  is node 40, a child of the body), creates the copy (node 41) and places it in
  container 30 before item 31.
\<close>

definition shopLoaded :: world where
  "shopLoaded = fst (newDataDrag (initialWorld shop) 0)"

definition shopPressed :: world where
  "shopPressed = stateOf (handleMouseDown rows shopLoaded 0 press)"

text \<open>The nodes that the drag creates or changes.\<close>

definition shopMirror :: nodeinfo where
  \<open>shopMirror =
     \<lparr> kind = ElementNode, parentNode = Some 10, host = None, children = [],
       attributes = [''data-drag'' \<mapsto> ''{"copy":true}''],
       classList = [''data-drag-mirror''],
       style = map_of
         [(''position'', Txt ''fixed''), (''pointer-events'', Txt ''none''),
          (''z-index'', Txt ''9999''), (''width'', Px 100), (''height'', Px 10),
          (''left'', Px 0), (''top'', Px 210), (''opacity'', Txt ''0.8''),
          (''margin'', Txt ''0'')] \<rparr>\<close>

definition shopInflight :: nodeinfo where
  "shopInflight =
     (nodes shop 21)\<lparr>classList := [''data-drag-dragging''],
                      style := [''opacity'' \<mapsto> Txt ''0.4'']\<rparr>"

definition shopMirrorAt :: "real \<Rightarrow> real \<Rightarrow> nodeinfo" where
  "shopMirrorAt x y =
     shopMirror\<lparr>style := (style shopMirror)(''left'' \<mapsto> Px x, ''top'' \<mapsto> Px y)\<rparr>"

definition shopCopy :: nodeinfo where
  "shopCopy = shopInflight\<lparr>parentNode := Some 30\<rparr>"

definition shopStarted :: world where
  "shopStarted =
     shopPressed
       \<lparr>doc := shop\<lparr>nodes := shopNodes
                       (40 := shopMirror, 10 := elementNode 0 [20, 30, 40] [],
                        21 := shopInflight),
                    nextNode := 41\<rparr>,
        sessions := (sessions shopPressed)
          (0 := (sessions shopPressed 0)\<lparr>isDragging := True, mirror := Some 40\<rparr>),
        notifications :=
          [\<lparr>target = 20, eventName = ''datadrag:start'', detail = StartDetail 21 20\<rparr>]\<rparr>"

definition shopShown :: dom where
  "shopShown =
     shop\<lparr>nodes := shopNodes
            (40 := shopMirrorAt 0 300, 10 := elementNode 0 [20, 30, 40] [],
             21 := shopInflight),
          nextNode := 41\<rparr>"

definition shopCloned :: world where
  "shopCloned =
     shopStarted
       \<lparr>doc := shopShown\<lparr>nodes := (nodes shopShown)(41 := shopInflight\<lparr>parentNode := None\<rparr>),
                         nextNode := 42\<rparr>,
        sessions := (sessions shopStarted)
          (0 := (sessions shopStarted 0)\<lparr>copy := Some 41\<rparr>),
        notifications :=
          [\<lparr>target = 20, eventName = ''datadrag:start'', detail = StartDetail 21 20\<rparr>,
           \<lparr>target = 20, eventName = ''datadrag:cloned'', detail = ClonedDetail 21 41\<rparr>]\<rparr>"

definition shopDragged :: world where
  "shopDragged =
     shopStarted
       \<lparr>doc := shop\<lparr>nodes := shopNodes
                       (40 := shopMirrorAt 0 300, 10 := elementNode 0 [20, 30, 40] [],
                        21 := shopInflight, 41 := shopCopy,
                        30 := elementNode 10 [41, 31] [(''data-drag-parent'', ''{}'')]),
                    nextNode := 42\<rparr>,
        sessions := (sessions shopStarted)
          (0 := (sessions shopStarted 0)\<lparr>copy := Some 41\<rparr>),
        notifications :=
          [\<lparr>target = 20, eventName = ''datadrag:start'', detail = StartDetail 21 20\<rparr>,
           \<lparr>target = 20, eventName = ''datadrag:cloned'', detail = ClonedDetail 21 41\<rparr>,
           \<lparr>target = 30, eventName = ''datadrag:move'',
            detail = MoveDetail 41 None 30 (Some 31)\<rparr>]\<rparr>"

text \<open>A second instance, constructed on container 30 while the drag is in progress.\<close>

definition shopTwo :: world where
  "shopTwo = fst (newDataDrag shopDragged 30)"

section \<open>Access control: properties\<close>

lemma matches_strings:
  "matches E d src (JArr (map JStr ps)) = Inr (matchesSet E d src ps)"
proof -
  have wild: "(JStr ''*'' \<in> set (map JStr ps)) = (''*'' \<in> set ps)"
    by auto
  have each: "list_ex (matchesPattern E d src) (map JStr ps)
        = list_ex (\<lambda>p. elementMatches E d src p = Some True) ps"
    by (induction ps) (auto simp: matchesPattern_def split: option.splits)
  show ?thesis
    unfolding matches_def matchesSet_def using wild each by auto
qed

lemma isDenyFirst_policy:
  "isDenyFirst (policy [''deny'', ''allow''] al dn)"
  "\<not> isDenyFirst (policy [''allow'', ''deny''] al dn)"
  by (simp_all add: isDenyFirst_def policy_def)

lemma canAccept_policy:
  "canAccept E d (policy ord al dn) itm (Some src) =
     Inr (matchesSet E d src al \<and> \<not> matchesSet E d src dn)"
  by (auto simp: canAccept_def policy_def matches_strings)

text \<open>
  C1. For every access policy and itm, \<open>canAccept\<close> accepts when the source container
  is absent. With a source container, and with \<open>matchesAllow\<close> (\<open>matchesDeny\<close>) meaning
  that the allow (deny) set holds the wildcard or a pattern the source matches, the order
  \<^verbatim>\<open>['deny','allow']\<close> accepts iff not \<open>matchesDeny\<close> and \<open>matchesAllow\<close>, and the
  order \<^verbatim>\<open>['allow','deny']\<close> accepts iff \<open>matchesAllow\<close> and not \<open>matchesDeny\<close>.
\<close>

theorem canAccept_decision:
  "canAccept E d a itm None = Inr True
   \<and> canAccept E d (policy [''deny'', ''allow''] al dn) itm (Some src)
       = Inr (\<not> matchesSet E d src dn \<and> matchesSet E d src al)
   \<and> canAccept E d (policy [''allow'', ''deny''] al dn) itm (Some src)
       = Inr (matchesSet E d src al \<and> \<not> matchesSet E d src dn)"
proof (intro conjI)
  show "canAccept E d a itm None = Inr True"
    by (simp add: canAccept_def)
  show "canAccept E d (policy [''deny'', ''allow''] al dn) itm (Some src)
       = Inr (\<not> matchesSet E d src dn \<and> matchesSet E d src al)"
    unfolding canAccept_policy by auto
  show "canAccept E d (policy [''allow'', ''deny''] al dn) itm (Some src)
       = Inr (matchesSet E d src al \<and> \<not> matchesSet E d src dn)"
    unfolding canAccept_policy by simp
qed

text \<open>
  C2, as stated: some input with a source container is accepted under
  \<^verbatim>\<open>['deny','allow']\<close> and rejected under \<^verbatim>\<open>['allow','deny']\<close>. There is none.
\<close>

theorem deny_first_more_permissive_counterexample:
  "\<not> (\<exists>E d al dn itm src.
        canAccept E d (policy [''deny'', ''allow''] al dn) itm (Some src) = Inr True
      \<and> canAccept E d (policy [''allow'', ''deny''] al dn) itm (Some src) = Inr False)"
  by (simp add: canAccept_policy)

text \<open>
  C2, amended. Deny-first is never more permissive than allow-first: whatever
  \<^verbatim>\<open>['deny','allow']\<close> accepts, \<^verbatim>\<open>['allow','deny']\<close> accepts as well, and a
  tie (the source matches both sets) is rejected under \<^verbatim>\<open>['deny','allow']\<close>.
\<close>

theorem deny_first_not_more_permissive:
  "(canAccept E d (policy [''deny'', ''allow''] al dn) itm src = Inr True
      \<longrightarrow> canAccept E d (policy [''allow'', ''deny''] al dn) itm src = Inr True)
   \<and> (matchesSet E d s al \<and> matchesSet E d s dn
      \<longrightarrow> canAccept E d (policy [''deny'', ''allow''] al dn) itm (Some s) = Inr False)"
  by (cases src) (simp_all add: canAccept_policy, simp add: canAccept_def)


section \<open>Example documents: facts\<close>

lemmas fixture_defs = loaded_def pressed_def press_def moveTo_def page_def pageNodes_def
  elementNode_def blankNode_def rows_def

lemma loaded_fields:
  "doc loaded = page" "globalDragState loaded = None" "mouseDownListeners loaded = [(0, 0)]"
  "instances loaded = [0]" "rootOf loaded 0 = 0" "nextSession loaded = 0"
  "dragState loaded i = None"
  by (simp_all add: loaded_def newDataDrag_def initialWorld_def addListener_def Let_def)

lemma press_facts:
  "button press = 0"
  "findInPath rows (doc loaded) (composedPath press) ''[data-drag]'' = Returns (Some 21)"
  "findInPath rows (doc loaded) (composedPath press) ''[data-drag-parent]'' = Returns (Some 20)"
  "parseOptions E (doc loaded) 21 = defaults"
  by (simp_all add: loaded_fields press_def page_def pageNodes_def elementNode_def blankNode_def
      elementMatches_def hasAttribute_def parseOptions_def getAttribute_def)

lemma pressed_eq: "handleMouseDown rows loaded 0 press = Done (sessionStarted rows loaded 0 press 21 20)"
  by (simp add: handleMouseDown_def press_facts loaded_fields(2) clickedHandle_def
      requiredHandle_def defaults_def sessionStarted_def Let_def)

lemma pressed_fields:
  "globalDragState pressed = Some 0"
  "dragState pressed 0 = Some 0"
  "doc pressed = page"
  "mouseMoveListeners pressed = [0]"
  "mouseUpListeners pressed = [0]"
  "sessions pressed 0 = newSession rows loaded 0 press 21 20"
  "notifications pressed = []"
  "dragState pressed i = (if i = 0 then Some 0 else None)"
  unfolding pressed_def pressed_eq
  by (simp_all add: sessionStarted_def loaded_fields addListener_def)
     (simp_all add: loaded_def newDataDrag_def initialWorld_def Let_def)

lemma reachable_loaded: "reachable rows loaded"
  unfolding loaded_def by (rule reachable.after[OF reachable.loaded step.construct])

lemma reachable_pressed: "reachable rows pressed"
  unfolding pressed_def
  by (rule reachable.after[OF reachable_loaded step.mouseDown[of 0 0]])
     (simp add: loaded_fields)

theorem deny_first_not_more_permissive_witness:
  "canAccept rows page (policy [''deny'', ''allow''] [''*''] [''.picked'']) 21 (Some 20) = Inr True
   \<and> canAccept rows page (policy [''allow'', ''deny''] [''*''] [''.picked'']) 21 (Some 20) = Inr True
   \<and> matchesSet rows page 30 [''*''] \<and> matchesSet rows page 30 [''.picked'']
   \<and> canAccept rows page (policy [''deny'', ''allow''] [''*''] [''.picked'']) 21 (Some 30) = Inr False"
proof -
  have a: "canAccept rows page (policy [''deny'', ''allow''] [''*''] [''.picked'']) 21 (Some 20) = Inr True"
    by (simp add: canAccept_policy matchesSet_def elementMatches_def rows_def)
  have b: "matchesSet rows page 30 [''*''] \<and> matchesSet rows page 30 [''.picked'']"
    by (simp add: matchesSet_def elementMatches_def rows_def)
  from deny_first_not_more_permissive[of rows page "[''*'']" "[''.picked'']" 21 "Some 20" 30] a b
  show ?thesis by simp
qed

section \<open>Engine lemmas\<close>

lemma find_filter: "find Q (filter P xs) = find (\<lambda>x. P x \<and> Q x) xs"
  by (induction xs) auto

lemma find_first:
  "(find P xs = Some r) = (\<exists>before rest. xs = before @ r # rest \<and> P r \<and> (\<forall>c\<in>set before. \<not> P c))"
proof (induction xs)
  case Nil
  then show ?case by simp
next
  case (Cons x xs)
  show ?case
  proof (cases "P x")
    case True
    have "(\<exists>before rest. x # xs = before @ r # rest \<and> P r \<and> (\<forall>c\<in>set before. \<not> P c)) = (x = r)"
    proof
      assume "\<exists>before rest. x # xs = before @ r # rest \<and> P r \<and> (\<forall>c\<in>set before. \<not> P c)"
      then obtain before rest where h: "x # xs = before @ r # rest" "\<forall>c\<in>set before. \<not> P c"
        by blast
      show "x = r"
      proof (cases before)
        case Nil
        with h show ?thesis by simp
      next
        case (Cons b bs)
        with h True show ?thesis by auto
      qed
    next
      assume "x = r"
      with True have "x # xs = [] @ r # xs \<and> P r \<and> (\<forall>c\<in>set []. \<not> P c)" by simp
      then show "\<exists>before rest. x # xs = before @ r # rest \<and> P r \<and> (\<forall>c\<in>set before. \<not> P c)"
        by blast
    qed
    with True show ?thesis by simp
  next
    case False
    have "(\<exists>before rest. x # xs = before @ r # rest \<and> P r \<and> (\<forall>c\<in>set before. \<not> P c))
        = (\<exists>before rest. xs = before @ r # rest \<and> P r \<and> (\<forall>c\<in>set before. \<not> P c))"
    proof
      assume "\<exists>before rest. x # xs = before @ r # rest \<and> P r \<and> (\<forall>c\<in>set before. \<not> P c)"
      then obtain before rest where h: "x # xs = before @ r # rest" "P r" "\<forall>c\<in>set before. \<not> P c"
        by blast
      show "\<exists>before rest. xs = before @ r # rest \<and> P r \<and> (\<forall>c\<in>set before. \<not> P c)"
      proof (cases before)
        case Nil
        with h False show ?thesis by simp
      next
        case (Cons b bs)
        with h have "xs = bs @ r # rest \<and> P r \<and> (\<forall>c\<in>set bs. \<not> P c)" by simp
        then show ?thesis by blast
      qed
    next
      assume "\<exists>before rest. xs = before @ r # rest \<and> P r \<and> (\<forall>c\<in>set before. \<not> P c)"
      then obtain before rest where h: "xs = before @ r # rest" "P r" "\<forall>c\<in>set before. \<not> P c"
        by blast
      with False have "x # xs = (x # before) @ r # rest \<and> P r \<and> (\<forall>c\<in>set (x # before). \<not> P c)"
        by simp
      then show "\<exists>before rest. x # xs = before @ r # rest \<and> P r \<and> (\<forall>c\<in>set before. \<not> P c)"
        by blast
    qed
    with False Cons.IH show ?thesis by simp
  qed
qed

lemma findInsertPosition_find:
  "findInsertPosition E w container opts x y active
     = find (insertCandidate E w opts x y active) (children (nodes (doc w) container))"
proof -
  have m: "\<And>c. (Some c = globalMirror w) = isTheMirror w c"
    by (auto simp: globalMirror_def isTheMirror_def split: option.splits)
  have "\<And>c. (\<not> c = active \<and> \<not> Some c = globalMirror w \<and> hasAttribute (doc w) c ''data-drag'')
          \<and> (if isHorizontal opts then x else y) < midpoint E (doc w) opts c
        \<longleftrightarrow> insertCandidate E w opts x y active c"
    unfolding m
    by (auto simp: insertCandidate_def candidateAlong_def midpointAlong_def midpoint_def
        isHorizontal_def plusD_def divideD_def Let_def)
  then show ?thesis
    by (simp add: findInsertPosition_def Let_def find_filter)
qed

lemma mirrored_fields:
  "doc mirrored = page" "globalDragState mirrored = Some 0"
  "mirror (sessions mirrored 0) = Some 22"
  by (simp_all add: mirrored_def pressed_fields)

lemma page_20:
  "children (nodes page 20) = [21, 22, 23]"
  "hasAttribute page 21 ''data-drag''" "hasAttribute page 22 ''data-drag''"
  "hasAttribute page 23 ''data-drag''"
  by (simp_all add: hasAttribute_def page_def pageNodes_def elementNode_def blankNode_def)

lemma isHorizontal_defaults: "\<not> isHorizontal defaults"
  by (simp add: isHorizontal_def defaults_def)

lemma exact_round: "roundDouble exact v = v"
  by (simp add: exact_def)

lemma rows_facts:
  "numerics rows = exact"
  "plusD rows a b = a + b" "minusD rows a b = a - b" "divideD rows a b = a / b"
  "getBoundingClientRect rows d n
     = \<lparr> left = 0, top_r = 10 * real n, right = 100, bottom = 10 * real n + 10,
         width = 100, height = 10 \<rparr>"
  "elementFromPoint rows d r x y = rowAt y"
  by (simp_all add: rows_def exact_def plusD_def minusD_def divideD_def)

lemma rows_midpoint:
  "midpoint rows d defaults n = 10 * real n + 5"
  "midpoint rows d [(''direction'', JStr ''horizontal'')] n = 50"
  by (simp_all add: midpoint_def isHorizontal_def defaults_def rows_facts)

lemma gallery_fields:
  "globalDragState gallery = None"
  "children (nodes (doc gallery) 20) = [21, 22, 23]"
  "hasAttribute (doc gallery) 21 ''data-drag''" "hasAttribute (doc gallery) 22 ''data-drag''"
  "hasAttribute (doc gallery) 23 ''data-drag''"
  "getAttribute (doc gallery) 21 ''data-drag'' = Some ''true''"
  \<open>getAttribute (doc gallery) 20 ''data-drag-parent'' = Some ''{"direction":"horizontal"}''\<close>
  by (simp_all add: gallery_def initialWorld_def hasAttribute_def getAttribute_def page_def
      pageNodes_def elementNode_def blankNode_def)

lemma gallery_parse:
  \<open>JSON_parse N (singleToDouble ''{"direction":"horizontal"}'')
     = Some (JObj [(''direction'', JStr ''horizontal'')])\<close>
  by code_simp

text \<open>
  C5, as claimed: the reference is the first candidate along the primary axis that the
  target container configures. It is not. Container 20 of the gallery is configured with
  the direction \<^verbatim>\<open>horizontal\<close>, and item 21, whose own options are the defaults (a
  vertical layout), is dragged over it with the pointer at (5, 228). Along the
  container's axis the first candidate is child 22, whose horizontal midpoint 50 lies
  after the pointer's \<open>x\<close>; \<open>findInsertPosition\<close>, called as the pointer-move
  handler calls it, with the options of the dragged item, returns child 23, the first
  child whose vertical midpoint lies after the pointer's \<open>y\<close>.
\<close>

theorem findInsertPosition_container_axis_counterexample:
  "configProp (parseParentOptions rows (doc gallery) 20) ''direction''
       = Some (JStr ''horizontal'')
   \<and> find (containerCandidate rows gallery 20 5 228 21) (children (nodes (doc gallery) 20))
       = Some 22
   \<and> findInsertPosition rows gallery 20 (parseOptions rows (doc gallery) 21) 5 228 21 = Some 23"
proof -
  have c: "configProp (parseParentOptions rows (doc gallery) 20) ''direction''
             = Some (JStr ''horizontal'')"
    by (simp add: parseParentOptions_def gallery_fields gallery_parse configProp_def jprop_def)
  have o: "parseOptions rows (doc gallery) 21 = defaults"
    by (simp add: parseOptions_def gallery_fields)
  have m: "\<And>n. \<not> isTheMirror gallery n" "globalMirror gallery = None"
    by (simp_all add: isTheMirror_def globalMirror_def gallery_fields)
  have "find (containerCandidate rows gallery 20 5 228 21) (children (nodes (doc gallery) 20))
       = Some 22"
    by (simp add: containerCandidate_def c candidateAlong_def gallery_fields m midpointAlong_def
        rows_facts exact_round Let_def)
  moreover have "findInsertPosition rows gallery 20 defaults 5 228 21 = Some 23"
    by (simp add: findInsertPosition_def Let_def m gallery_fields rows_midpoint
        isHorizontal_defaults)
  ultimately show ?thesis using c o by simp
qed

text \<open>
  C5, amended. For every target container, item options, pointer coordinate and active
  element, the reference returned by \<open>findInsertPosition\<close> is the first direct child
  of the container, in structural order, that carries the draggable marker, is neither
  the active element nor the mirror of the drag in progress, and whose midpoint along
  the primary axis lies after the pointer; there is no reference exactly when no child
  qualifies. The primary axis is the one that the item options passed in configure
  (those of the dragged item): the horizontal midpoint is compared against the pointer's
  \<open>x\<close> when their direction is \<^verbatim>\<open>horizontal\<close>, the vertical midpoint against the
  pointer's \<open>y\<close> otherwise. The midpoint is the near edge plus half the extent, each
  operation rounded as the arithmetic of doubles rounds it.
\<close>

theorem findInsertPosition_first_by_item_axis:
  "(findInsertPosition E w container opts x y active = Some r)
     = (\<exists>before rest. children (nodes (doc w) container) = before @ r # rest
          \<and> insertCandidate E w opts x y active r
          \<and> (\<forall>c\<in>set before. \<not> insertCandidate E w opts x y active c))
   \<and> (findInsertPosition E w container opts x y active = None)
     = (\<forall>c\<in>set (children (nodes (doc w) container)). \<not> insertCandidate E w opts x y active c)"
  unfolding findInsertPosition_find
  by (simp add: find_first find_None_iff Ball_def)

theorem findInsertPosition_first_by_item_axis_witness:
  "findInsertPosition rows mirrored 20 defaults 5 218 21 = Some 23
   \<and> insertCandidate rows mirrored defaults 5 218 21 23
   \<and> \<not> insertCandidate rows mirrored defaults 5 218 21 21
   \<and> \<not> insertCandidate rows mirrored defaults 5 218 21 22
   \<and> isTheMirror mirrored 22
   \<and> findInsertPosition rows mirrored 20 defaults 5 240 21 = None
   \<and> \<not> insertCandidate rows mirrored defaults 5 240 21 23"
proof -
  have gm: "globalMirror mirrored = Some 22"
    by (simp add: globalMirror_def mirrored_fields)
  have a: "findInsertPosition rows mirrored 20 defaults 5 218 21 = Some 23"
    by (simp add: findInsertPosition_def Let_def gm mirrored_fields page_20 rows_midpoint
        isHorizontal_defaults)
  have b: "findInsertPosition rows mirrored 20 defaults 5 240 21 = None"
    by (simp add: findInsertPosition_def Let_def gm mirrored_fields page_20 rows_midpoint
        isHorizontal_defaults)
  have kids': "children (nodes (doc mirrored) 20) = [21, 22, 23]"
    by (simp add: mirrored_fields page_20)
  from a findInsertPosition_first_by_item_axis[of rows mirrored 20 defaults 5 218 21 23]
  obtain before rest where f: "[21, 22, 23] = before @ 23 # rest"
      "insertCandidate rows mirrored defaults 5 218 21 23"
      "\<forall>c\<in>set before. \<not> insertCandidate rows mirrored defaults 5 218 21 c"
    unfolding kids' by blast
  from f(1) have "before = [21, 22]"
    by (auto simp: append_eq_Cons_conv Cons_eq_append_conv)
  with f have first: "insertCandidate rows mirrored defaults 5 218 21 23
      \<and> \<not> insertCandidate rows mirrored defaults 5 218 21 21
      \<and> \<not> insertCandidate rows mirrored defaults 5 218 21 22"
    by simp
  from b findInsertPosition_first_by_item_axis[of rows mirrored 20 defaults 5 240 21 23]
  have "\<not> insertCandidate rows mirrored defaults 5 240 21 23"
    unfolding kids' by simp
  moreover have "isTheMirror mirrored 22"
    by (simp add: isTheMirror_def mirrored_fields)
  ultimately show ?thesis using a b first by simp
qed

lemma container_selector:
  "matchesIfElement E d n ''[data-drag-parent]'' = Some (isContainer d n)"
  by (simp add: matchesIfElement_def elementMatches_def isContainer_def)




lemma sameControl_refl: "sameControl w w"
  by (simp add: sameControl_def)

lemma sameControl_trans: "sameControl w w' \<Longrightarrow> sameControl w' w'' \<Longrightarrow> sameControl w w''"
  by (simp add: sameControl_def)

lemma sameControl_dispatch: "sameControl w (dispatchEvent w t name dt)"
  by (cases t) (simp_all add: sameControl_def dispatchEvent_def control_def)

lemma sameControl_doc: "sameControl w (w\<lparr>doc := d\<rparr>)"
  by (simp add: sameControl_def control_def)

lemma sameControl_animate: "sameControl w (animateInsertion E w e r1 r2 dur)"
  by (simp add: sameControl_def control_def animateInsertion_def Let_def)

lemma sameControl_startDragging: "sameControl w (startDragging E w s)"
proof -
  obtain d1 m where cm: "createMirror E (doc w) (item (sessions w s)) = (d1, m)"
    by (cases "createMirror E (doc w) (item (sessions w s))")
  show ?thesis
    unfolding startDragging_def Let_def cm prod.case
    by (rule sameControl_trans[OF _ sameControl_dispatch])
       (simp add: sameControl_def control_def fixedPart_def)
qed

lemma sameControl_reconcileCopy: "sameControl w (reconcileCopy w s dp)"
proof -
  obtain d1 c where cn: "cloneNode (doc w) (item (sessions w s)) = (d1, c)"
    by (cases "cloneNode (doc w) (item (sessions w s))")
  have a: "sameControl w
     (dispatchEvent (w\<lparr>doc := d1, sessions := (sessions w)(s := (sessions w s)\<lparr>copy := Some c\<rparr>)\<rparr>)
        (Some (parent (sessions w s))) ''cloned'' (ClonedDetail (item (sessions w s)) c))"
    by (rule sameControl_trans[OF _ sameControl_dispatch])
       (simp add: sameControl_def control_def fixedPart_def)
  have b: "\<And>d. sameControl w (w\<lparr>doc := d, sessions := (sessions w)(s := (sessions w s)\<lparr>copy := None\<rparr>)\<rparr>)"
    by (simp add: sameControl_def control_def fixedPart_def)
  show ?thesis
    unfolding reconcileCopy_def Let_def cn prod.case
    using a b by (auto simp: sameControl_refl split: option.splits)
qed

lemma sameControl_afterInsertion: "sameControl w (afterInsertion E w s dp reference d1)"
  unfolding afterInsertion_def Let_def
  by (auto intro!: sameControl_trans[OF _ sameControl_dispatch] sameControl_doc
                   sameControl_trans[OF sameControl_doc sameControl_animate])

lemma placeActive_cases:
  assumes "placeActive E w s ev dp = Some out"
  obtains (stays) "out = Done w"
    | (refused) e where "out = Threw e w"
    | (inserted) d1 where
        "out = Done (afterInsertion E w s dp
                 (findInsertPosition E w dp (options (sessions w s)) (clientX ev) (clientY ev)
                    (activeElementOf (sessions w s))) d1)"
  using assms unfolding placeActive_def Let_def
  by (auto split: if_splits option.splits sum.splits)

lemma sameControl_placeActive:
  "placeActive E w s ev dp = Some out \<Longrightarrow> sameControl w (stateOf out)"
  by (erule placeActive_cases) (simp_all add: sameControl_refl sameControl_afterInsertion)

lemma overTarget_cases:
  assumes "overTarget E w s ev dp = Some out"
  obtains (denied) "out = Done w"
    | (raised) e where "out = Threw e w"
    | (proceeds) "placeActive E (reconcileCopy w s dp) s ev dp = Some out"
proof (cases "configProp (parseParentOptions E (doc w) dp) ''access''")
  case None
  with assms have "placeActive E (reconcileCopy w s dp) s ev dp = Some out"
    by (simp add: overTarget_def Let_def)
  then show ?thesis by (rule proceeds)
next
  case (Some rules)
  show ?thesis
  proof (cases "truthy rules")
    case False
    with assms Some have "placeActive E (reconcileCopy w s dp) s ev dp = Some out"
      by (simp add: overTarget_def Let_def)
    then show ?thesis by (rule proceeds)
  next
    case True
    show ?thesis
    proof (cases "canAccept E (doc w) (newAccess rules) (item (sessions w s))
                    (Some (parent (sessions w s)))")
      case (Inl e)
      with assms Some True have "out = Threw e w"
        by (simp add: overTarget_def Let_def)
      then show ?thesis by (rule raised)
    next
      case (Inr accepted)
      show ?thesis
      proof (cases accepted)
        case True
        with assms Some \<open>truthy rules\<close> Inr
        have "placeActive E (reconcileCopy w s dp) s ev dp = Some out"
          by (simp add: overTarget_def Let_def)
        then show ?thesis by (rule proceeds)
      next
        case False
        with assms Some \<open>truthy rules\<close> Inr have "out = Done w"
          by (simp add: overTarget_def Let_def)
        then show ?thesis by (rule denied)
      qed
    qed
  qed
qed

lemma sameControl_overTarget:
  "overTarget E w s ev dp = Some out \<Longrightarrow> sameControl w (stateOf out)"
proof (erule overTarget_cases)
  assume "placeActive E (reconcileCopy w s dp) s ev dp = Some out"
  then have "sameControl (reconcileCopy w s dp) (stateOf out)"
    by (rule sameControl_placeActive)
  with sameControl_reconcileCopy show "sameControl w (stateOf out)"
    by (rule sameControl_trans)
qed (simp_all add: sameControl_refl)

lemma sameControl_underPointer:
  "underPointer E w s ev dropParent = Some out \<Longrightarrow> sameControl w (stateOf out)"
  by (cases dropParent) (auto simp: underPointer_def sameControl_refl sameControl_overTarget)

lemma followPointer_cases:
  assumes "followPointer E w s ev = Some out"
  obtains (noMirror) "mirror (sessions w s) = None" "out = Threw TypeError w"
    | (raised) m e where "mirror (sessions w s) = Some m"
        "out = Threw e (w\<lparr>doc := mirrorHiddenAt E (doc w) m (sessions w s) ev\<rparr>)"
    | (resolved) m dropParent where "mirror (sessions w s) = Some m"
        "findDropParent E (mirrorHiddenAt E (doc w) m (sessions w s) ev)
           (map (rootOf w) (instances w)) (clientX ev) (clientY ev) = Some (Returns dropParent)"
        "underPointer E
           (w\<lparr>doc := mirrorShown (mirrorHiddenAt E (doc w) m (sessions w s) ev) m\<rparr>)
           s ev dropParent = Some out"
  using assms unfolding followPointer_def
  by (auto split: option.splits result.splits)

lemma sameControl_followPointer:
  "followPointer E w s ev = Some out \<Longrightarrow> sameControl w (stateOf out)"
proof -
  assume f: "followPointer E w s ev = Some out"
  have o: "\<And>d dp. underPointer E (w\<lparr>doc := d\<rparr>) s ev dp = Some out
             \<Longrightarrow> sameControl w (stateOf out)"
    by (rule sameControl_trans[OF sameControl_doc sameControl_underPointer])
  from f show ?thesis
    by (cases rule: followPointer_cases) (auto simp: sameControl_refl sameControl_doc dest: o)
qed

lemma handleMouseMove_cases:
  assumes "handleMouseMove E w i ev = Some out"
  obtains (idle) "globalDragState w = None" "out = Done w"
    | (below) s where "globalDragState w = Some s" "\<not> isDragging (sessions w s)"
        "\<not> 5 \<le> distanceMoved E (sessions w s) ev"
        "out = Done w"
    | (starts) s where "globalDragState w = Some s" "\<not> isDragging (sessions w s)"
        "5 \<le> distanceMoved E (sessions w s) ev"
        "followPointer E (startDragging E w s) s ev = Some out"
    | (continues) s where "globalDragState w = Some s" "isDragging (sessions w s)"
        "followPointer E w s ev = Some out"
proof (cases "globalDragState w")
  case None
  with assms have "out = Done w" by (simp add: handleMouseMove_def)
  with None show ?thesis by (rule idle)
next
  case (Some s)
  show ?thesis
  proof (cases "isDragging (sessions w s)")
    case True
    with assms Some have "followPointer E w s ev = Some out"
      by (simp add: handleMouseMove_def Let_def)
    with Some True show ?thesis by (rule continues)
  next
    case False
    show ?thesis
    proof (cases "5 \<le> distanceMoved E (sessions w s) ev")
      case True
      with assms Some False have "followPointer E (startDragging E w s) s ev = Some out"
        by (simp add: handleMouseMove_def Let_def)
      with Some False True show ?thesis by (rule starts)
    next
      case far: False
      with assms Some False have "out = Done w"
        by (simp add: handleMouseMove_def Let_def)
      with Some False far show ?thesis by (rule below)
    qed
  qed
qed

lemma sameControl_handleMouseMove:
  "handleMouseMove E w i ev = Some out \<Longrightarrow> sameControl w (stateOf out)"
proof -
  assume h: "handleMouseMove E w i ev = Some out"
  then show ?thesis
  proof (cases rule: handleMouseMove_cases)
    case idle
    then show ?thesis by (simp add: sameControl_refl)
  next
    case (below s)
    then show ?thesis by (simp add: sameControl_refl)
  next
    case (starts s)
    then show ?thesis
      using sameControl_trans[OF sameControl_startDragging sameControl_followPointer] by blast
  next
    case (continues s)
    then show ?thesis using sameControl_followPointer by blast
  qed
qed

lemma sessionInvariant_sameControl:
  "sameControl w w' \<Longrightarrow> sessionInvariant w \<Longrightarrow> sessionInvariant w'"
  unfolding sameControl_def sessionInvariant_def control_def fixedPart_def
  by (elim conjE) simp

lemma sessionInvariant_initial: "sessionInvariant (initialWorld d)"
  by (simp add: sessionInvariant_def initialWorld_def)

lemma sessionInvariant_construct:
  "sessionInvariant w \<Longrightarrow> sessionInvariant (fst (newDataDrag w r))"
  unfolding sessionInvariant_def newDataDrag_def Let_def addListener_def
  by (auto simp: less_Suc_eq)

lemma handleMouseDown_result:
  "handleMouseDown E w i ev = Done w
   \<or> (\<exists>e. handleMouseDown E w i ev = Threw e w)
   \<or> (button ev = 0 \<and> globalDragState w = None
       \<and> (\<exists>itm par. handleMouseDown E w i ev = Done (sessionStarted E w i ev itm par)))"
  unfolding handleMouseDown_def Let_def sessionStarted_def
  by (auto split: result.splits option.splits)

lemma handleMouseDown_cases:
  obtains (ignored) "handleMouseDown E w i ev = Done w"
    | (raised) e where "handleMouseDown E w i ev = Threw e w"
    | (started) itm par where "button ev = 0" "globalDragState w = None"
        "handleMouseDown E w i ev = Done (sessionStarted E w i ev itm par)"
  using handleMouseDown_result[of E w i ev] by blast

lemma sessionInvariant_mouseDown:
  assumes inv: "sessionInvariant w" and reg: "(r, i) \<in> set (mouseDownListeners w)"
  shows "sessionInvariant (stateOf (handleMouseDown E w i ev))"
proof (cases rule: handleMouseDown_cases[of E w i ev])
  case ignored
  with inv show ?thesis by simp
next
  case (raised e)
  with inv show ?thesis by simp
next
  case (started itm par)
  have none: "\<And>j. dragState w j = None"
    using inv started(2) unfolding sessionInvariant_def by (metis option.exhaust option.distinct(1))
  have nolisten: "mouseMoveListeners w = [] \<and> mouseUpListeners w = []"
    using inv started(2) unfolding sessionInvariant_def
    by (metis option.distinct(1) list.set_intros(1) neq_Nil_conv)
  have lt: "i < nextInstance w"
    using inv reg unfolding sessionInvariant_def by blast
  show ?thesis
    unfolding started(3) stateOf.simps sessionInvariant_def sessionStarted_def
    using inv none nolisten lt
    by (auto simp: newSession_def Let_def addListener_def sessionInvariant_def)
qed

lemma sessionInvariant_mouseMove:
  "sessionInvariant w \<Longrightarrow> handleMouseMove E w i ev = Some out \<Longrightarrow> sessionInvariant (stateOf out)"
  using sessionInvariant_sameControl sameControl_handleMouseMove by blast

lemma control_simps [simp]:
  "control (w\<lparr>doc := d\<rparr>) = control w"
  "control (w\<lparr>notifications := n\<rparr>) = control w"
  "control (w\<lparr>animationFrames := f\<rparr>) = control w"
  "control (w\<lparr>sessions := ss\<rparr>) = control w"
  "control (dispatchEvent w t name dt) = control w"
  by (simp_all add: control_def dispatchEvent_def split: option.splits)

lemma sessions_dispatch [simp]: "sessions (dispatchEvent w t name dt) = sessions w"
  by (simp add: dispatchEvent_def split: option.splits)

lemma applyAdoption_control [simp]:
  "control (stateOf (applyAdoption E w itm par)) = control w"
  "sessions (stateOf (applyAdoption E w itm par)) = sessions w"
  by (simp_all add: applyAdoption_def split: option.splits sum.splits prod.splits)

lemma sameControl_applyAdoption: "sameControl w (stateOf (applyAdoption E w itm par))"
  by (simp add: sameControl_def)

lemma sameControl_finishDrag: "sameControl w (stateOf (finishDrag E w st fp v))"
proof -
  have a: "\<And>w2 itm par. sameControl w2 (stateOf (applyAdoption E w2 itm par))"
    by (rule sameControl_applyAdoption)
  have b: "\<And>w2 itm par e w3. applyAdoption E w2 itm par = Threw e w3 \<Longrightarrow> sameControl w2 w3"
    using a by (metis stateOf.simps(2))
  have c: "\<And>w2 itm par w3. applyAdoption E w2 itm par = Done w3 \<Longrightarrow> sameControl w2 w3"
    using a by (metis stateOf.simps(1))
  show ?thesis
    unfolding finishDrag_def Let_def
    by (auto split: option.splits outcome.splits
        intro!: sameControl_doc sameControl_trans[OF _ sameControl_dispatch]
        intro: sameControl_trans[OF sameControl_doc b] sameControl_trans[OF sameControl_doc c])
qed

lemma sameControl_clear:
  "sameControl w w' \<Longrightarrow> sameControl (clearDragState w i) (clearDragState w' i)"
  by (simp add: sameControl_def control_def clearDragState_def)

lemma owner_listens:
  assumes "sessionInvariant w" "i \<in> set (mouseMoveListeners w) \<or> i \<in> set (mouseUpListeners w)"
  shows "\<exists>s. globalDragState w = Some s \<and> sourceInstance (sessions w s) = i \<and> dragState w i = Some s"
  using assms unfolding sessionInvariant_def by blast

lemma only_owner:
  assumes "sessionInvariant w" "globalDragState w = Some s" "sourceInstance (sessions w s) = i"
  shows "\<forall>j. j \<noteq> i \<longrightarrow> dragState w j = None"
    and "\<forall>j. j \<in> set (mouseMoveListeners w) \<or> j \<in> set (mouseUpListeners w) \<longrightarrow> j = i"
  using assms unfolding sessionInvariant_def
  by (metis option.exhaust option.inject, metis option.inject)

lemma sessionInvariant_unlisten:
  assumes inv: "sessionInvariant w" and own: "globalDragState w = Some s" "sourceInstance (sessions w s) = i"
  shows "sessionInvariant (removeDocumentListeners w i)"
  using inv only_owner(2)[OF inv own]
  unfolding sessionInvariant_def removeDocumentListeners_def
  by auto

lemma sessionInvariant_cleared:
  assumes inv: "sessionInvariant w" and own: "globalDragState w = Some s" "sourceInstance (sessions w s) = i"
  shows "sessionInvariant (clearDragState (removeDocumentListeners w i) i)"
  using inv only_owner[OF inv own]
  unfolding sessionInvariant_def removeDocumentListeners_def clearDragState_def
  by auto

lemma handleMouseUp_cases:
  assumes "handleMouseUp E w i = Some out"
  obtains (idle) "globalDragState w = None" "out = Done w"
    | (click) s where "globalDragState w = Some s" "\<not> isDragging (sessions w s)"
        "out = Done (clearDragState (removeDocumentListeners w i) i)"
    | (raised) s e where "globalDragState w = Some s" "isDragging (sessions w s)"
        "out = Threw e (removeDocumentListeners w i)"
    | (finished) s isValidDrop where "globalDragState w = Some s" "isDragging (sessions w s)"
        "findParentInTree E (doc w) (parentElement (doc w) (activeElementOf (sessions w s)))
           ''[data-drag-parent]'' = Some (Returns isValidDrop)"
        "out = finished (finishDrag E (removeDocumentListeners w i) (sessions w s)
                           (parentElement (doc w) (activeElementOf (sessions w s))) isValidDrop) i"
proof (cases "globalDragState w")
  case None
  with assms have "out = Done w" by (simp add: handleMouseUp_def)
  with None show ?thesis by (rule idle)
next
  case (Some s)
  show ?thesis
  proof (cases "isDragging (sessions w s)")
    case False
    with assms Some have "out = Done (clearDragState (removeDocumentListeners w i) i)"
      by (simp add: handleMouseUp_def Let_def)
    with Some False show ?thesis by (rule click)
  next
    case True
    have d: "doc (removeDocumentListeners w i) = doc w"
      by (simp add: removeDocumentListeners_def)
    from assms Some True have
      "(case findParentInTree E (doc w) (parentElement (doc w) (activeElementOf (sessions w s)))
               ''[data-drag-parent]'' of
          None \<Rightarrow> None
        | Some (Raises e) \<Rightarrow> Some (Threw e (removeDocumentListeners w i))
        | Some (Returns isValidDrop) \<Rightarrow>
            Some (finished (finishDrag E (removeDocumentListeners w i) (sessions w s)
                    (parentElement (doc w) (activeElementOf (sessions w s))) isValidDrop) i))
       = Some out"
      by (simp add: handleMouseUp_def Let_def d)
    then show ?thesis
      using Some True raised finished
      by (auto split: option.splits result.splits)
  qed
qed

lemma sessionInvariant_mouseUp:
  assumes inv: "sessionInvariant w" and reg: "i \<in> set (mouseUpListeners w)"
    and up: "handleMouseUp E w i = Some out"
  shows "sessionInvariant (stateOf out)"
proof -
  from owner_listens[OF inv] reg obtain s0 where
    own: "globalDragState w = Some s0" "sourceInstance (sessions w s0) = i"
    by blast
  from up show ?thesis
  proof (cases rule: handleMouseUp_cases)
    case idle
    with inv show ?thesis by simp
  next
    case (click s)
    then show ?thesis using sessionInvariant_cleared[OF inv own] by simp
  next
    case (raised s e)
    then show ?thesis using sessionInvariant_unlisten[OF inv own] by simp
  next
    case (finished s isValidDrop)
    let ?w1 = "removeDocumentListeners w i"
    let ?o = "finishDrag E ?w1 (sessions w s) (parentElement (doc w) (activeElementOf (sessions w s))) isValidDrop"
    have sc: "sameControl ?w1 (stateOf ?o)" by (rule sameControl_finishDrag)
    show ?thesis
    proof (cases ?o)
      case (Done w2)
      with sc have "sameControl (clearDragState ?w1 i) (clearDragState w2 i)"
        by (simp add: sameControl_clear)
      with sessionInvariant_cleared[OF inv own] have "sessionInvariant (clearDragState w2 i)"
        by (rule sessionInvariant_sameControl[rotated])
      with finished Done show ?thesis by (simp add: finished_def)
    next
      case (Threw e w2)
      with sc have "sameControl ?w1 w2" by simp
      with sessionInvariant_unlisten[OF inv own] have "sessionInvariant w2"
        by (rule sessionInvariant_sameControl[rotated])
      with finished Threw show ?thesis by (simp add: finished_def)
    qed
  qed
qed

lemma destroy_fields:
  "globalDragState (destroy w i)
     = (if dragState w i = globalDragState w then None else globalDragState w)"
  "dragState (destroy w i) = (dragState w)(i := None)"
  "mouseMoveListeners (destroy w i)
     = (if dragState w i = globalDragState w then removeAll i (mouseMoveListeners w)
        else mouseMoveListeners w)"
  "mouseUpListeners (destroy w i)
     = (if dragState w i = globalDragState w then removeAll i (mouseUpListeners w)
        else mouseUpListeners w)"
  "mouseDownListeners (destroy w i) = removeAll (rootOf w i, i) (mouseDownListeners w)"
  "instances (destroy w i) = removeAll i (instances w)"
  "nextInstance (destroy w i) = nextInstance w"
  "sessions (destroy w i) = sessions w"
  "doc (destroy w i) = doc w"
  "notifications (destroy w i) = notifications w"
  by (simp_all add: destroy_def Let_def removeDocumentListeners_def)

lemma sessionInvariant_destroy:
  assumes inv: "sessionInvariant w"
  shows "sessionInvariant (destroy w i)"
proof -
  have i1: "\<And>j s. dragState w j = Some s \<Longrightarrow>
              globalDragState w = Some s \<and> sourceInstance (sessions w s) = j"
    and i2: "\<And>s. globalDragState w = Some s \<Longrightarrow>
              dragState w (sourceInstance (sessions w s)) = Some s
              \<and> sourceInstance (sessions w s) < nextInstance w"
    and i3: "\<And>j. j \<in> set (mouseMoveListeners w) \<or> j \<in> set (mouseUpListeners w) \<Longrightarrow>
              \<exists>s. globalDragState w = Some s \<and> sourceInstance (sessions w s) = j"
    and i4: "\<And>r j. (r, j) \<in> set (mouseDownListeners w) \<Longrightarrow> j < nextInstance w"
    using inv unfolding sessionInvariant_def by blast+
  show ?thesis
  proof (cases "dragState w i = globalDragState w")
    case True
    have others: "\<And>j. j \<noteq> i \<Longrightarrow> dragState w j = None"
    proof -
      fix j assume j: "j \<noteq> i"
      show "dragState w j = None"
      proof (cases "dragState w j")
        case (Some s)
        then have g: "globalDragState w = Some s" "sourceInstance (sessions w s) = j"
          using i1 by blast+
        with True have "dragState w i = Some s" by simp
        with i1 g j show ?thesis by blast
      qed simp
    qed
    have listeners: "\<And>j. j \<in> set (mouseMoveListeners w) \<or> j \<in> set (mouseUpListeners w) \<Longrightarrow> j = i"
    proof -
      fix j assume "j \<in> set (mouseMoveListeners w) \<or> j \<in> set (mouseUpListeners w)"
      then obtain s where s: "globalDragState w = Some s" "sourceInstance (sessions w s) = j"
        using i3 by blast
      with True have "dragState w i = Some s" by simp
      with i1 s show "j = i" by blast
    qed
    show ?thesis
      unfolding sessionInvariant_def destroy_fields
      using True others listeners i4 by auto
  next
    case False
    have none: "dragState w i = None"
    proof (cases "dragState w i")
      case (Some s)
      with i1 have "globalDragState w = Some s" by blast
      with Some False show ?thesis by simp
    qed simp
    have notowner: "\<And>s. globalDragState w = Some s \<Longrightarrow> sourceInstance (sessions w s) \<noteq> i"
      using i2 none by fastforce
    show ?thesis
      unfolding sessionInvariant_def destroy_fields
      using False none notowner i1 i2 i3 i4 by auto
  qed
qed

lemma sessionInvariant_frame: "sessionInvariant w \<Longrightarrow> sessionInvariant (runAnimationFrame E w)"
  unfolding runAnimationFrame_def sessionInvariant_def
  by (auto split: list.splits)

lemma sessionInvariant_step: "step E w w' \<Longrightarrow> sessionInvariant w \<Longrightarrow> sessionInvariant w'"
proof (induction rule: step.induct)
  case (construct w rootNode)
  then show ?case by (rule sessionInvariant_construct)
next
  case (mouseDown rootNode i w event)
  then show ?case using sessionInvariant_mouseDown by blast
next
  case (mouseMove i w event out)
  then show ?case using sessionInvariant_mouseMove by blast
next
  case (mouseUp i w out)
  then show ?case using sessionInvariant_mouseUp by blast
next
  case (destroyed w i)
  then show ?case by (rule sessionInvariant_destroy)
next
  case (animationFrame w)
  then show ?case by (rule sessionInvariant_frame)
qed

lemma sessionInvariant_reachable: "reachable E w \<Longrightarrow> sessionInvariant w"
  by (induction rule: reachable.induct)
     (auto intro: sessionInvariant_initial sessionInvariant_step)

lemma one_live_session:
  assumes inv: "sessionInvariant w" and s: "s \<in> liveSessions w" and t: "t \<in> liveSessions w"
  shows "s = t"
proof -
  have "\<And>u. u \<in> liveSessions w \<Longrightarrow> globalDragState w = Some u"
    using inv unfolding sessionInvariant_def liveSessions_def by blast
  with s t show ?thesis by (metis option.inject)
qed

lemma pointer_down_ignored:
  "globalDragState w \<noteq> None \<Longrightarrow> handleMouseDown E w i ev = Done w"
  by (simp add: handleMouseDown_def)

text \<open>
  C3. In every state the engine can reach, all references to a drag state, the static one
  and those of the instances, are to one and the same drag state: at most one session
  exists. A pointer-down that arrives while the static reference is set returns without
  an error and leaves every part of the state as it was.
\<close>

theorem single_session:
  "(reachable E w \<longrightarrow> (\<forall>s\<in>liveSessions w. \<forall>t\<in>liveSessions w. s = t))
   \<and> (globalDragState w \<noteq> None \<longrightarrow> handleMouseDown E w i ev = Done w)"
  using sessionInvariant_reachable one_live_session pointer_down_ignored by blast

theorem single_session_witness:
  "reachable rows pressed \<and> globalDragState pressed = Some 0
   \<and> liveSessions pressed = {0}
   \<and> handleMouseDown rows pressed 0 press = Done pressed"
proof -
  have live: "liveSessions pressed = {0}"
    by (auto simp: liveSessions_def pressed_fields split: if_splits)
  from single_session[of rows pressed 0 press] reachable_pressed live
  show ?thesis by (simp add: pressed_fields)
qed









section \<open>A drag in the shop\<close>

lemma cloneTree_leaf:
  "children (nodes d src) = [] \<Longrightarrow>
     cloneTree k d src par =
       (d\<lparr>nodes := (nodes d)(nextNode d := (nodes d src)\<lparr>parentNode := par, host := None, children := []\<rparr>),
          nextNode := Suc (nextNode d)\<rparr>, nextNode d)"
  by (cases k) (simp_all add: Let_def updNode_def)

lemma shop_nodes:
  "nodes shop 0 = blankNode\<lparr>kind := DocumentNode, children := [10]\<rparr>"
  "nodes shop 10 = elementNode 0 [20, 30] []"
  "nodes shop 20 = elementNode 10 [21] [(''data-drag-parent'', ''{}'')]"
  "nodes shop 30 = elementNode 10 [31] [(''data-drag-parent'', ''{}'')]"
  \<open>nodes shop 21 = elementNode 20 [] [(''data-drag'', ''{"copy":true}'')]\<close>
  "nodes shop 31 = elementNode 30 [] [(''data-drag'', ''true'')]"
  "nextNode shop = 40" "documentNode shop = 0" "bodyNode shop = 10"
  by (simp_all add: shop_def shopNodes_def)

lemma copy_parse:
  \<open>JSON_parse N (singleToDouble ''{"copy":true}'') = Some (JObj [(''copy'', JBool True)])\<close>
  by code_simp

lemma copying_props:
  "map_of copying ''copy'' = Some (JBool True)"
  "map_of copying ''sort'' = Some (JBool True)"
  "map_of copying ''animation'' = Some (JNum (Finite 150))"
  "map_of copying ''handle'' = Some JNull"
  "\<not> isHorizontal copying"
  by (simp_all add: copying_def isHorizontal_def)

lemma shop_options: "parseOptions E shop 21 = copying"
  by (simp add: parseOptions_def getAttribute_def shop_nodes elementNode_def blankNode_def
      copy_parse spread_def ownEntries_def defaults_def copying_def setProp_def)

lemma shopLoaded_fields:
  "doc shopLoaded = shop" "globalDragState shopLoaded = None"
  "mouseDownListeners shopLoaded = [(0, 0)]"
  "instances shopLoaded = [0]" "rootOf shopLoaded 0 = 0" "nextSession shopLoaded = 0"
  "dragState shopLoaded i = None" "notifications shopLoaded = []"
  "mouseMoveListeners shopLoaded = []" "mouseUpListeners shopLoaded = []"
  "nextInstance shopLoaded = 1"
  by (simp_all add: shopLoaded_def newDataDrag_def initialWorld_def addListener_def Let_def)

lemma shop_press_facts:
  "findInPath rows shop (composedPath press) ''[data-drag]'' = Returns (Some 21)"
  "findInPath rows shop (composedPath press) ''[data-drag-parent]'' = Returns (Some 20)"
  by (simp_all add: press_def shop_nodes elementNode_def blankNode_def
      elementMatches_def hasAttribute_def)

lemma shopPressed_eq:
  "handleMouseDown rows shopLoaded 0 press = Done (sessionStarted rows shopLoaded 0 press 21 20)"
  by (simp add: handleMouseDown_def press_facts(1) shop_press_facts shopLoaded_fields
      shop_options clickedHandle_def requiredHandle_def copying_def sessionStarted_def Let_def)

lemma shopPressed_fields:
  "globalDragState shopPressed = Some 0"
  "doc shopPressed = shop"
  "mouseMoveListeners shopPressed = [0]"
  "mouseUpListeners shopPressed = [0]"
  "sessions shopPressed 0 = newSession rows shopLoaded 0 press 21 20"
  "notifications shopPressed = []"
  "dragState shopPressed i = (if i = 0 then Some 0 else None)"
  "instances shopPressed = [0]" "rootOf shopPressed 0 = 0" "nextInstance shopPressed = 1"
  unfolding shopPressed_def shopPressed_eq
  by (simp_all add: sessionStarted_def shopLoaded_fields addListener_def)

lemma shop_session:
  "newSession rows shopLoaded 0 press 21 20 =
     \<lparr> item = 21, parent = 20, options = copying, offsetX = 5, offsetY = 5,
       startX = 5, startY = 215, mirror = None, copy = None, isDragging = False,
       sourceInstance = 0 \<rparr>"
  by (simp add: newSession_def shopLoaded_fields shop_options rows_facts press_def Let_def)

lemma euclid_ge: "0 \<le> c \<Longrightarrow> (c \<le> euclid a b) = (c * c \<le> a * a + b * b)"
proof -
  assume c: "0 \<le> c"
  have "(c \<le> sqrt (a * a + b * b)) = (sqrt (c * c) \<le> sqrt (a * a + b * b))"
    using c by simp
  also have "\<dots> = (c * c \<le> a * a + b * b)"
    by (rule real_sqrt_le_iff)
  finally show ?thesis by (simp add: euclid_def)
qed

lemma rows_distance:
  "distanceMoved rows st ev
     = euclid (clientX ev - startX st) (clientY ev - startY st)"
  by (simp add: distanceMoved_def rows_facts exact_def)

lemma shop_mirror:
  "createMirror rows shop 21 =
     (shop\<lparr>nodes := shopNodes
               (40 := shopMirror,
                10 := elementNode 0 [20, 30, 40] []),
           nextNode := 41\<rparr>, 40)"
  apply (simp add: createMirror_def cloneNode_def cloneTree_leaf shop_nodes elementNode_def
      blankNode_def rows_facts classListAdd_def setCssText_def appendChild_def attach_def
      removeNode_def updNode_def Let_def shopMirror_def)
  apply (simp add: shop_def fun_upd_twist)
  done

lemma shop_started: "startDragging rows shopPressed 0 = shopStarted"
  apply (simp add: startDragging_def shopPressed_fields shop_session shop_mirror Let_def
      dispatchEvent_def classListAdd_def setStyle_def updNode_def shopStarted_def)
  apply (simp add: shopInflight_def shop_nodes elementNode_def blankNode_def shopNodes_def fun_upd_twist)
  done

lemma shopStarted_fields:
  "globalDragState shopStarted = Some 0"
  "sessions shopStarted 0 =
     \<lparr> item = 21, parent = 20, options = copying, offsetX = 5, offsetY = 5,
       startX = 5, startY = 215, mirror = Some 40, copy = None, isDragging = True,
       sourceInstance = 0 \<rparr>"
  "instances shopStarted = [0]" "rootOf shopStarted 0 = 0"
  "notifications shopStarted
     = [\<lparr>target = 20, eventName = ''datadrag:start'', detail = StartDetail 21 20\<rparr>]"
  "doc shopStarted = shop\<lparr>nodes := shopNodes
                       (40 := shopMirror, 10 := elementNode 0 [20, 30, 40] [],
                        21 := shopInflight),
                    nextNode := 41\<rparr>"
  by (simp_all add: shopStarted_def shopPressed_fields shop_session)

lemma shop_hidden:
  "mirrorHiddenAt rows (doc shopStarted) 40 (sessions shopStarted 0) (moveTo 5 305)
     = shop\<lparr>nodes := shopNodes
              (40 := (shopMirrorAt 0 300)\<lparr>style := (style (shopMirrorAt 0 300))
                                                 (''display'' \<mapsto> Txt ''none'')\<rparr>,
               10 := elementNode 0 [20, 30, 40] [],
               21 := shopInflight),
            nextNode := 41\<rparr>"
  apply (simp add: mirrorHiddenAt_def shopStarted_fields setStyle_def updNode_def moveTo_def
      rows_facts shopMirrorAt_def)
  apply (simp add: fun_upd_twist)
  done

lemma shop_shown:
  "mirrorShown (mirrorHiddenAt rows (doc shopStarted) 40 (sessions shopStarted 0) (moveTo 5 305)) 40
     = shopShown"
  unfolding shop_hidden
  by (rule dom.equality)
     (auto simp: mirrorShown_def setStyle_def updNode_def shopShown_def shopMirrorAt_def
        shopMirror_def)

lemma shop_target:
  "findDropParent rows
     (mirrorHiddenAt rows (doc shopStarted) 40 (sessions shopStarted 0) (moveTo 5 305))
     [0] 5 305 = Some (Returns (Some 30))"
proof -
  let ?d = "mirrorHiddenAt rows (doc shopStarted) 40 (sessions shopStarted 0) (moveTo 5 305)"
  have h: "hitElement rows ?d 0 5 305 = Some 30"
    unfolding shop_hidden by (simp add: hitElement_def shop_nodes rows_facts rowAt_def)
  have c: "isContainer ?d 30"
    unfolding shop_hidden
    by (simp add: isContainer_def hasAttribute_def shopNodes_def elementNode_def blankNode_def)
  have "findParentInTree rows ?d (Some 30) ''[data-drag-parent]'' = Some (Returns (Some 30))"
    unfolding findParentInTree_def
    by (subst walkUp.simps) (simp add: container_selector c)
  with h show ?thesis by simp
qed

lemma shopShown_nodes:
  "nodes shopShown 0 = blankNode\<lparr>kind := DocumentNode, children := [10]\<rparr>"
  "nodes shopShown 10 = elementNode 0 [20, 30, 40] []"
  "nodes shopShown 20 = elementNode 10 [21] [(''data-drag-parent'', ''{}'')]"
  "nodes shopShown 30 = elementNode 10 [31] [(''data-drag-parent'', ''{}'')]"
  "nodes shopShown 21 = shopInflight"
  "nodes shopShown 31 = elementNode 30 [] [(''data-drag'', ''true'')]"
  "nodes shopShown 40 = shopMirrorAt 0 300"
  "nextNode shopShown = 41" "documentNode shopShown = 0" "bodyNode shopShown = 10"
  by (simp_all add: shopShown_def shop_def shopNodes_def)

lemma empty_parse: "JSON_parse N (singleToDouble ''{}'') = Some (JObj [])"
  by code_simp

lemma shop_config: "parseParentOptions E shopShown 30 = Some (JObj [])"
  by (simp add: parseParentOptions_def getAttribute_def shopShown_nodes elementNode_def
      blankNode_def empty_parse)

lemma shopInflight_fields:
  "children shopInflight = []" "host shopInflight = None" "kind shopInflight = ElementNode"
  "parentNode shopInflight = Some 20"
  by (simp_all add: shopInflight_def shop_nodes elementNode_def blankNode_def)

lemma shop_reconciled:
  "reconcileCopy (shopStarted\<lparr>doc := shopShown\<rparr>) 0 30 = shopCloned"
proof -
  have c: "cloneNode shopShown 21
      = (shopShown\<lparr>nodes := (nodes shopShown)(41 := shopInflight\<lparr>parentNode := None\<rparr>),
                    nextNode := 42\<rparr>, 41)"
    apply (simp add: cloneNode_def cloneTree_leaf shopShown_nodes shopInflight_fields)
    apply (simp add: shopInflight_def shop_nodes elementNode_def blankNode_def)
    done
  show ?thesis
    apply (simp add: reconcileCopy_def shouldCreateCopy_def shopStarted_fields copying_props
        truthyProp_def c Let_def dispatchEvent_def)
    apply (simp add: shopCloned_def shopStarted_fields)
    done
qed

lemma shopCloned_fields:
  "globalDragState shopCloned = Some 0"
  "sessions shopCloned 0 =
     \<lparr> item = 21, parent = 20, options = copying, offsetX = 5, offsetY = 5,
       startX = 5, startY = 215, mirror = Some 40, copy = Some 41, isDragging = True,
       sourceInstance = 0 \<rparr>"
  "doc shopCloned = shopShown\<lparr>nodes := (nodes shopShown)(41 := shopInflight\<lparr>parentNode := None\<rparr>),
                         nextNode := 42\<rparr>"
  "notifications shopCloned =
          [\<lparr>target = 20, eventName = ''datadrag:start'', detail = StartDetail 21 20\<rparr>,
           \<lparr>target = 20, eventName = ''datadrag:cloned'', detail = ClonedDetail 21 41\<rparr>]"
  by (simp_all add: shopCloned_def shopStarted_fields)

lemma shopCloned_nodes:
  "nodes (doc shopCloned) 0 = blankNode\<lparr>kind := DocumentNode, children := [10]\<rparr>"
  "nodes (doc shopCloned) 10 = elementNode 0 [20, 30, 40] []"
  "nodes (doc shopCloned) 30 = elementNode 10 [31] [(''data-drag-parent'', ''{}'')]"
  "nodes (doc shopCloned) 31 = elementNode 30 [] [(''data-drag'', ''true'')]"
  "nodes (doc shopCloned) 41 = shopInflight\<lparr>parentNode := None\<rparr>"
  by (simp_all add: shopCloned_fields shopShown_nodes)

lemma shop_reference:
  "findInsertPosition rows shopCloned 30 copying 5 305 41 = Some 31"
  by (simp add: findInsertPosition_def Let_def globalMirror_def shopCloned_fields(1,2)
      shopCloned_nodes elementNode_def blankNode_def hasAttribute_def midpoint_def
      copying_props rows_facts)

lemma shop_notAbove: "isAncestor (doc shopCloned) 41 30 = Some False"
  apply (subst isAncestor.simps)
  apply (simp add: parentOrHost_def shopCloned_nodes elementNode_def blankNode_def)
  apply (subst isAncestor.simps)
  apply (simp add: parentOrHost_def shopCloned_nodes elementNode_def blankNode_def)
  apply (subst isAncestor.simps)
  apply (simp add: parentOrHost_def shopCloned_nodes elementNode_def blankNode_def)
  done

lemma shop_inserted:
  "insertBefore (doc shopCloned) 30 41 (Some 31) = Some (Inr (doc shopDragged))"
  apply (simp add: insertBefore_def shop_notAbove shopCloned_nodes elementNode_def blankNode_def)
  apply (rule dom.equality)
  apply (auto simp: attach_def removeNode_def updNode_def shopCloned_fields shopShown_def
      shopDragged_def shopInflight_fields shopCopy_def Let_def shop_def shopNodes_def
      elementNode_def blankNode_def)
  done

lemma shop_placed:
  "placeActive rows shopCloned 0 (moveTo 5 305) 30 = Some (Done shopDragged)"
proof -
  have r: "findInsertPosition rows shopCloned 30 (options (sessions shopCloned 0))
             (clientX (moveTo 5 305)) (clientY (moveTo 5 305))
             (activeElementOf (sessions shopCloned 0)) = Some 31"
    using shop_reference by (simp add: shopCloned_fields activeElementOf_def moveTo_def)
  have n: "needsInsertion shopCloned 41 30 (Some 31)"
    by (simp add: needsInsertion_def parentElement_def shopCloned_nodes)
  have a: "afterInsertion rows shopCloned 0 30 (Some 31) (doc shopDragged) = shopDragged"
    apply (simp add: afterInsertion_def Let_def shopCloned_fields activeElementOf_def
        copying_props truthyProp_def animateInsertion_def rows_facts parentElement_def
        shopCloned_nodes dispatchEvent_def)
    apply (simp add: shopDragged_def shopCloned_def)
    done
  show ?thesis
    unfolding placeActive_def Let_def r
    by (simp add: canSortInParent_def shopCloned_fields(2) copying_props truthyProp_def
        activeElementOf_def n shop_inserted a)
qed

lemma shop_tick:
  "handleMouseMove rows shopPressed 0 (moveTo 5 305) = Some (Done shopDragged)"
proof -
  have d: "5 \<le> distanceMoved rows (sessions shopPressed 0) (moveTo 5 305)"
    by (simp add: rows_distance shopPressed_fields shop_session moveTo_def euclid_ge)
  have o: "overTarget rows (shopStarted\<lparr>doc := shopShown\<rparr>) 0 (moveTo 5 305) 30
             = Some (Done shopDragged)"
    by (simp add: overTarget_def Let_def shop_config configProp_def jprop_def shop_reconciled
        shop_placed)
  have t: "findDropParent rows
             (mirrorHiddenAt rows (doc shopStarted) 40 (sessions shopStarted 0) (moveTo 5 305))
             (map (rootOf shopStarted) (instances shopStarted))
             (clientX (moveTo 5 305)) (clientY (moveTo 5 305)) = Some (Returns (Some 30))"
    using shop_target by (simp add: shopStarted_fields(3,4) moveTo_def)
  have m: "mirror (sessions shopStarted 0) = Some 40"
    by (simp add: shopStarted_fields)
  have f: "followPointer rows shopStarted 0 (moveTo 5 305) = Some (Done shopDragged)"
    unfolding followPointer_def m option.case t result.case shop_shown
    by (simp add: underPointer_def o)
  show ?thesis
    using d
    by (simp add: handleMouseMove_def shopPressed_fields shop_session Let_def shop_started f)
qed

lemma shopDragged_fields:
  "globalDragState shopDragged = Some 0"
  "dragState shopDragged i = (if i = 0 then Some 0 else None)"
  "sessions shopDragged 0 =
     \<lparr> item = 21, parent = 20, options = copying, offsetX = 5, offsetY = 5,
       startX = 5, startY = 215, mirror = Some 40, copy = Some 41, isDragging = True,
       sourceInstance = 0 \<rparr>"
  "instances shopDragged = [0]" "rootOf shopDragged 0 = 0"
  "mouseMoveListeners shopDragged = [0]" "mouseUpListeners shopDragged = [0]"
  "nextInstance shopDragged = 1"
  "notifications shopDragged =
     [\<lparr>target = 20, eventName = ''datadrag:start'', detail = StartDetail 21 20\<rparr>,
      \<lparr>target = 20, eventName = ''datadrag:cloned'', detail = ClonedDetail 21 41\<rparr>,
      \<lparr>target = 30, eventName = ''datadrag:move'', detail = MoveDetail 41 None 30 (Some 31)\<rparr>]"
  by (simp_all add: shopDragged_def shopStarted_def shopPressed_fields shop_session)

lemma shopDragged_nodes:
  "nodes (doc shopDragged) 0 = blankNode\<lparr>kind := DocumentNode, children := [10]\<rparr>"
  "nodes (doc shopDragged) 10 = elementNode 0 [20, 30, 40] []"
  "nodes (doc shopDragged) 20 = elementNode 10 [21] [(''data-drag-parent'', ''{}'')]"
  "nodes (doc shopDragged) 30 = elementNode 10 [41, 31] [(''data-drag-parent'', ''{}'')]"
  "nodes (doc shopDragged) 21 = shopInflight"
  "nodes (doc shopDragged) 31 = elementNode 30 [] [(''data-drag'', ''true'')]"
  "nodes (doc shopDragged) 40 = shopMirrorAt 0 300"
  "nodes (doc shopDragged) 41 = shopCopy"
  "nextNode (doc shopDragged) = 42" "documentNode (doc shopDragged) = 0"
  "bodyNode (doc shopDragged) = 10"
  by (simp_all add: shopDragged_def shop_def shopNodes_def)

lemma reachable_shopPressed: "reachable rows shopPressed"
proof -
  have l: "reachable rows shopLoaded"
    unfolding shopLoaded_def by (rule reachable.after[OF reachable.loaded step.construct])
  show ?thesis
    unfolding shopPressed_def
    by (rule reachable.after[OF l step.mouseDown[of 0 0]]) (simp add: shopLoaded_fields)
qed

lemma reachable_shopDragged: "reachable rows shopDragged"
proof -
  have "step rows shopPressed (stateOf (Done shopDragged))"
    by (rule step.mouseMove[of 0, OF _ shop_tick]) (simp add: shopPressed_fields)
  with reachable_shopPressed show ?thesis
    by (auto intro: reachable.after)
qed

lemma shopTwo_fields:
  "globalDragState shopTwo = Some 0"
  "dragState shopTwo i = (if i = 0 then Some 0 else None)"
  "instances shopTwo = [0, 1]"
  "doc shopTwo = doc shopDragged"
  by (simp_all add: shopTwo_def newDataDrag_def Let_def shopDragged_fields)

lemma reachable_shopTwo: "reachable rows shopTwo"
  unfolding shopTwo_def by (rule reachable.after[OF reachable_shopDragged step.construct])

section \<open>Destroying an instance\<close>

text \<open>
  C8, as claimed: when the destroyed instance owns the active session, any mirror and
  any copy are removed from the document. They are not. In the shop, after the move that
  started the drag, instance 0 owns the session, whose mirror is node 40, a child of the
  body, and whose copy is node 41, a child of container 30. Destroying instance 0 clears
  the process-wide session reference, and the mirror and the copy are still where they
  were.
\<close>

theorem destroy_keeps_mirror_and_copy_counterexample:
  "reachable rows shopDragged
   \<and> ownsActiveSession shopDragged 0
   \<and> mirror (sessions shopDragged 0) = Some 40
   \<and> copy (sessions shopDragged 0) = Some 41
   \<and> globalDragState (destroy shopDragged 0) = None
   \<and> parentNode (nodes (doc (destroy shopDragged 0)) 40) = Some 10
   \<and> children (nodes (doc (destroy shopDragged 0)) 10) = [20, 30, 40]
   \<and> parentNode (nodes (doc (destroy shopDragged 0)) 41) = Some 30
   \<and> children (nodes (doc (destroy shopDragged 0)) 30) = [41, 31]"
  by (simp add: reachable_shopDragged ownsActiveSession_def shopDragged_fields destroy_fields
      shopDragged_nodes elementNode_def blankNode_def shopMirrorAt_def shopMirror_def
      shopCopy_def)

text \<open>
  C8, amended. Destroying an instance removes its pointer-down listener from its root
  and deletes it from the registry, and clears the instance's own session reference. It
  never touches the document, the session objects or the notifications: no mirror and no
  copy is removed, and neither a drop nor a cancel is emitted. If the instance owns the
  active session, the process-wide session reference is cleared and the instance's
  pointer-move and pointer-up listeners are removed from the document. If it does not,
  the process-wide reference, the session references of the other instances and their
  document listeners are as before.
\<close>

theorem destroy_abandons_session:
  "mouseDownListeners (destroy w i) = removeAll (rootOf w i, i) (mouseDownListeners w)
   \<and> instances (destroy w i) = removeAll i (instances w)
   \<and> dragState (destroy w i) i = None
   \<and> doc (destroy w i) = doc w
   \<and> notifications (destroy w i) = notifications w
   \<and> sessions (destroy w i) = sessions w
   \<and> (ownsActiveSession w i \<longrightarrow>
         globalDragState (destroy w i) = None
         \<and> mouseMoveListeners (destroy w i) = removeAll i (mouseMoveListeners w)
         \<and> mouseUpListeners (destroy w i) = removeAll i (mouseUpListeners w))
   \<and> (\<not> ownsActiveSession w i \<longrightarrow>
         globalDragState (destroy w i) = globalDragState w
         \<and> (\<forall>j. j \<noteq> i \<longrightarrow>
               dragState (destroy w i) j = dragState w j
               \<and> (j \<in> set (mouseMoveListeners (destroy w i)) \<longleftrightarrow> j \<in> set (mouseMoveListeners w))
               \<and> (j \<in> set (mouseUpListeners (destroy w i)) \<longleftrightarrow> j \<in> set (mouseUpListeners w))))"
  by (auto simp: destroy_fields ownsActiveSession_def)

theorem destroy_abandons_session_witness:
  "reachable rows shopTwo
   \<and> ownsActiveSession shopTwo 0
   \<and> globalDragState (destroy shopTwo 0) = None
   \<and> doc (destroy shopTwo 0) = doc shopTwo
   \<and> \<not> ownsActiveSession shopTwo 1
   \<and> globalDragState (destroy shopTwo 1) = Some 0
   \<and> dragState (destroy shopTwo 1) 0 = Some 0
   \<and> instances (destroy shopTwo 1) = [0]"
proof -
  have o: "ownsActiveSession shopTwo 0" "\<not> ownsActiveSession shopTwo 1"
    by (simp_all add: ownsActiveSession_def shopTwo_fields)
  from destroy_abandons_session[of shopTwo 0] o(1)
  have a: "globalDragState (destroy shopTwo 0) = None" "doc (destroy shopTwo 0) = doc shopTwo"
    by simp_all
  from destroy_abandons_session[of shopTwo 1] o(2)
  have b: "globalDragState (destroy shopTwo 1) = Some 0"
    "dragState (destroy shopTwo 1) 0 = Some 0" "instances (destroy shopTwo 1) = [0]"
    by (simp_all add: shopTwo_fields)
  from a b o reachable_shopTwo show ?thesis by simp
qed

end
